theory Spec2Isabelle
  imports Complex_Main
begin

section \<open>Data model of \<^verbatim>\<open>src/index.ts\<close>\<close>

text \<open>
  The orchestration code of \<^verbatim>\<open>index.ts\<close> is embedded as HOL functions. Every value that
  the source types as \<^verbatim>\<open>number\<close> and computes with (\<^verbatim>\<open>segmentHeight\<close>, \<^verbatim>\<open>curTop\<close>, \<^verbatim>\<open>height\<close>,
  the device pixel ratio, the crop options, the geometry returned by the layout
  collaborators) is a JavaScript number, with the arithmetic of doubles. The DOM
  attributes \<^verbatim>\<open>scrollWidth\<close>, \<^verbatim>\<open>scrollHeight\<close>, \<^verbatim>\<open>canvas.width\<close> and \<^verbatim>\<open>canvas.height\<close> are of
  the IDL type \<^verbatim>\<open>long\<close> or \<^verbatim>\<open>unsigned long\<close> and are integers. Colours are the packed
  numbers of \<^verbatim>\<open>./css/types/color\<close>, which \<^verbatim>\<open>index.ts\<close> only compares.

  A rejected promise and a thrown exception are the \<open>Inl\<close> branch of a sum; \<open>Error m\<close> is
  \<^verbatim>\<open>new Error(m)\<close>, \<open>Rejected m\<close> is a rejection whose reason is the plain string \<open>m\<close>,
  and \<open>TypeError\<close> is what JavaScript throws on a property read from \<^verbatim>\<open>null\<close> or
  \<^verbatim>\<open>undefined\<close>.
\<close>

datatype failure = Error string | Rejected string | TypeError

type_synonym 'a outcome = "failure + 'a"

type_synonym color = int

section \<open>JavaScript numbers\<close>

text \<open>
  A JavaScript number is a finite double, given by the real number it stands for, one of
  the two infinities, or \<^verbatim>\<open>NaN\<close>. Negative zero is not told apart from zero: the source
  never divides by a number or takes its sign.
\<close>

datatype number = Fin real | PInfinity | NInfinity | NaN

text \<open>Rounding to the nearest integer, ties to the even one.\<close>

definition round_even :: "real \<Rightarrow> int" where
  "round_even r =
     (let f = \<lfloor>r\<rfloor>
      in if r - of_int f < 1 / 2 then f
         else if 1 / 2 < r - of_int f then f + 1
         else if even f then f
         else f + 1)"

text \<open>
  The number that the exact result \<open>x\<close> of an operation rounds to (binary64, round to
  nearest, ties to even): 53 significant bits at the binary exponent of \<open>x\<close>, the spacing
  of the subnormal numbers below \<open>2\<^sup>-\<^sup>1\<^sup>0\<^sup>2\<^sup>2\<close>, and an infinity when the rounded value does
  not fit below \<open>2\<^sup>1\<^sup>0\<^sup>2\<^sup>4\<close>.
\<close>

definition fl :: "real \<Rightarrow> number" where
  "fl x =
     (if x = 0 then Fin 0
      else
       (let e = max \<lfloor>log 2 \<bar>x\<bar>\<rfloor> (- 1022);
            ulp = 2 powi (e - 52);
            y = of_int (round_even (x / ulp)) * ulp
        in if 2 ^ 1024 \<le> \<bar>y\<bar>
           then (if 0 < x then PInfinity else NInfinity)
           else Fin y))"

text \<open>A value of the IDL type \<^verbatim>\<open>long\<close> read as a number.\<close>

definition long :: "int \<Rightarrow> number" where
  "long n = Fin (of_int n)"

fun js_neg :: "number \<Rightarrow> number" where
  "js_neg (Fin x) = Fin (- x)"
| "js_neg PInfinity = NInfinity"
| "js_neg NInfinity = PInfinity"
| "js_neg NaN = NaN"

text \<open>The operator \<^verbatim>\<open>+\<close> on numbers.\<close>

fun js_add :: "number \<Rightarrow> number \<Rightarrow> number" where
  "js_add (Fin x) (Fin y) = fl (x + y)"
| "js_add NaN b = NaN"
| "js_add a NaN = NaN"
| "js_add PInfinity NInfinity = NaN"
| "js_add NInfinity PInfinity = NaN"
| "js_add PInfinity b = PInfinity"
| "js_add a PInfinity = PInfinity"
| "js_add NInfinity b = NInfinity"
| "js_add a NInfinity = NInfinity"

text \<open>The operator \<^verbatim>\<open>-\<close> on numbers.\<close>

definition js_sub :: "number \<Rightarrow> number \<Rightarrow> number" where
  "js_sub a b = js_add a (js_neg b)"

text \<open>The operator \<^verbatim>\<open>*\<close> on numbers.\<close>

fun js_mul :: "number \<Rightarrow> number \<Rightarrow> number" where
  "js_mul (Fin x) (Fin y) = fl (x * y)"
| "js_mul NaN b = NaN"
| "js_mul a NaN = NaN"
| "js_mul PInfinity (Fin y) = (if y = 0 then NaN else if 0 < y then PInfinity else NInfinity)"
| "js_mul NInfinity (Fin y) = (if y = 0 then NaN else if 0 < y then NInfinity else PInfinity)"
| "js_mul (Fin x) PInfinity = (if x = 0 then NaN else if 0 < x then PInfinity else NInfinity)"
| "js_mul (Fin x) NInfinity = (if x = 0 then NaN else if 0 < x then NInfinity else PInfinity)"
| "js_mul PInfinity PInfinity = PInfinity"
| "js_mul NInfinity NInfinity = PInfinity"
| "js_mul PInfinity NInfinity = NInfinity"
| "js_mul NInfinity PInfinity = NInfinity"

text \<open>The operator \<^verbatim>\<open><\<close> on numbers; a comparison with \<^verbatim>\<open>NaN\<close> is false.\<close>

fun js_lt :: "number \<Rightarrow> number \<Rightarrow> bool" where
  "js_lt (Fin x) (Fin y) = (x < y)"
| "js_lt NaN b = False"
| "js_lt a NaN = False"
| "js_lt a NInfinity = False"
| "js_lt NInfinity b = True"
| "js_lt PInfinity b = False"
| "js_lt a PInfinity = True"

text \<open>
  The operator \<^verbatim>\<open><=\<close> on numbers. The source does not use it; it states the order of numbers
  in the properties below.
\<close>

fun js_le :: "number \<Rightarrow> number \<Rightarrow> bool" where
  "js_le (Fin x) (Fin y) = (x \<le> y)"
| "js_le NaN b = False"
| "js_le a NaN = False"
| "js_le NInfinity b = True"
| "js_le a PInfinity = True"
| "js_le a NInfinity = False"
| "js_le PInfinity b = False"

text \<open>
  The operator \<^verbatim>\<open>/\<close> on numbers, with a zero divisor taken as \<open>+0\<close>. The source does not
  divide; the quotient \<^verbatim>\<open>scrollHeight / segmentHeight\<close> appears in the properties below.
\<close>

fun js_div :: "number \<Rightarrow> number \<Rightarrow> number" where
  "js_div (Fin x) (Fin y) =
     (if y = 0 then (if x = 0 then NaN else if 0 < x then PInfinity else NInfinity)
      else fl (x / y))"
| "js_div NaN b = NaN"
| "js_div a NaN = NaN"
| "js_div (Fin x) b = Fin 0"
| "js_div PInfinity (Fin y) = (if 0 \<le> y then PInfinity else NInfinity)"
| "js_div NInfinity (Fin y) = (if 0 \<le> y then NInfinity else PInfinity)"
| "js_div a b = NaN"

text \<open>The real number that a finite number stands for.\<close>

fun finite_value :: "number \<Rightarrow> real" where
  "finite_value (Fin x) = x"
| "finite_value a = 0"

text \<open>\<^verbatim>\<open>Math.min\<close> of two numbers.\<close>

fun js_min :: "number \<Rightarrow> number \<Rightarrow> number" where
  "js_min NaN b = NaN"
| "js_min a NaN = NaN"
| "js_min a b = (if js_lt b a then b else a)"

text \<open>\<^verbatim>\<open>Math.floor\<close> and \<^verbatim>\<open>Math.ceil\<close>; their results on a double are doubles.\<close>

fun js_floor :: "number \<Rightarrow> number" where
  "js_floor (Fin x) = Fin (of_int \<lfloor>x\<rfloor>)"
| "js_floor a = a"

fun js_ceil :: "number \<Rightarrow> number" where
  "js_ceil (Fin x) = Fin (of_int \<lceil>x\<rceil>)"
| "js_ceil a = a"

text \<open>
  The integer that an attribute of type \<^verbatim>\<open>unsigned long\<close> takes from a number assigned to
  it: \<^verbatim>\<open>NaN\<close> and the infinities give 0, a finite number is truncated. The wrap-around
  modulo \<open>2\<^sup>3\<^sup>2\<close> and what a browser substitutes for a size outside its range are not
  modelled: the truncated value is kept.
\<close>

fun as_long :: "number \<Rightarrow> int" where
  "as_long (Fin x) = (if x < 0 then - \<lfloor>- x\<rfloor> else \<lfloor>x\<rfloor>)"
| "as_long a = 0"

section \<open>Records of the document and of the options\<close>

text \<open>A value handed in where the type says \<^verbatim>\<open>HTMLElement\<close>.\<close>

datatype 'a js = JsNull | JsUndefined | JsPrimitive | JsObject 'a

text \<open>An option that may be unset (\<^verbatim>\<open>undefined\<close>), \<^verbatim>\<open>null\<close>, or a value.\<close>

datatype 'a nullable = Unset | Null | Val 'a

record window =
  devicePixelRatio :: "number option"

record node =
  nid :: nat
  computedBackgroundColor :: string

record document =
  defaultView :: "window option"
  documentElement :: "node option"
  body :: "node option"

record element =
  eid :: nat
  scrollWidth :: int
  scrollHeight :: int
  ownerDocument :: "document option"

record Bounds =
  b_left :: number
  b_top :: number
  b_width :: number
  b_height :: number

text \<open>
  A canvas element: its size and the content of its bitmap (\<open>None\<close> is the cleared,
  transparent-black bitmap; the painted content is abstracted to a number).
\<close>

record canvas =
  width :: int
  height :: int
  pixels :: "nat option"

datatype blob = Blob string nat

text \<open>
  The fields of \<^verbatim>\<open>Partial<Options>\<close> that \<^verbatim>\<open>index.ts\<close> branches on or computes with.
  The resource, clone and window options (\<^verbatim>\<open>allowTaint\<close>, \<^verbatim>\<open>proxy\<close>, \<^verbatim>\<open>onclone\<close>,
  \<^verbatim>\<open>windowWidth\<close>, ...) are only handed on to the collaborators and are part of the
  environment below.
\<close>

record Options =
  opt_backgroundColor :: "string nullable"
  opt_foreignObjectRendering :: "bool option"
  opt_removeContainer :: "bool option"
  opt_canvas :: "canvas option"
  opt_scale :: "number option"
  opt_x :: "number option"
  opt_y :: "number option"
  opt_width :: "number option"
  opt_height :: "number option"

record RenderConfigurations =
  rc_canvas :: "canvas option"
  rc_backgroundColor :: color
  rc_scale :: number
  rc_x :: number
  rc_y :: number
  rc_width :: number
  rc_height :: number

text \<open>The root of the paint tree; \<open>subtree\<close> stands for everything below its styles.\<close>

record ElementContainer =
  styles_backgroundColor :: color
  subtree :: nat

text \<open>
  The collaborators that \<^verbatim>\<open>index.ts\<close> imports and the host objects it reads are
  parameters. The \<^verbatim>\<open>Context\<close> argument (logger and cache) never decides a branch of
  \<^verbatim>\<open>index.ts\<close>, so each collaborator is taken as already applied to it, and the
  logger calls are left out. \<open>createCanvas\<close> is \<^verbatim>\<open>document.createElement('canvas')\<close>,
  and \<open>getContext2d\<close> tells whether \<^verbatim>\<open>getContext('2d')\<close> hands out a context (rather
  than \<^verbatim>\<open>null\<close>) for a canvas in the given state.

  Modelled from the spec: the two painters of \<^verbatim>\<open>./render/canvas\<close> are not part of the
  sources at hand. By section 4.3 a painter that is given a target surface draws on that
  surface and returns it, so the canvas a painter returns is the new state of the canvas
  it was given; a painter may also fail.
\<close>

record env =
  parseColor :: "string \<Rightarrow> color"
  isTransparent :: "color \<Rightarrow> bool"
  TRANSPARENT :: color
  isBodyElement :: "element \<Rightarrow> bool"
  isHTMLElement :: "element \<Rightarrow> bool"
  parseDocumentSize :: "document option \<Rightarrow> Bounds"
  parseBounds :: "element \<Rightarrow> Bounds"
  parseTree :: "element \<Rightarrow> ElementContainer"
  CanvasRenderer_render :: "RenderConfigurations \<Rightarrow> ElementContainer \<Rightarrow> canvas outcome"
  ForeignObjectRenderer_render :: "RenderConfigurations \<Rightarrow> element \<Rightarrow> canvas outcome"
  clonedReferenceElement :: "element \<Rightarrow> element option"
  toIFrame :: "element \<Rightarrow> nat outcome"
  createCanvas :: canvas
  getContext2d :: "canvas \<Rightarrow> bool"
  window_devicePixelRatio :: number
  toBlob :: "canvas \<Rightarrow> string \<Rightarrow> blob option"

text \<open>
  The state outside the call: the isolation containers attached to the live document,
  and the state of the caller that its per-segment callback reads and writes.
\<close>

record 'u world =
  attached :: "nat set"
  user :: 'u

text \<open>
  What the callback \<^verbatim>\<open>op\<close> returns: something that is not a thenable (\<^verbatim>\<open>undefined\<close>,
  \<^verbatim>\<open>null\<close>, any value without a \<^verbatim>\<open>then\<close> method), or a thenable, given by what its
  settlement does to the caller's state: it resolves (\<open>Inr\<close>) or rejects (\<open>Inl\<close>).
  A thenable that never settles is outside this model.

  A callback takes the raster and the caller's state. It throws (\<open>Inl\<close>, the caller's
  state is then taken as unchanged), or returns with the caller's state after its
  synchronous part and the value it returned. A callback acts on the caller's state only;
  one that detaches containers of the document itself is outside this model.
\<close>

datatype 'u returned = NotThenable | Thenable "'u \<Rightarrow> 'u outcome"

type_synonym 'u callback = "canvas \<Rightarrow> 'u \<Rightarrow> ('u \<times> 'u returned) outcome"

text \<open>
  The steps of the segmented sweep on its collaborators, in program order:
  \<open>Render y h\<close> is the call of \<^verbatim>\<open>render\<close> for the window at \<open>y\<close> of height \<open>h\<close>, \<open>Op c\<close> the
  call of the callback with the raster \<open>c\<close>, \<open>Await\<close> the \<^verbatim>\<open>await\<close> on a thenable that the
  callback returned, \<open>Resolved\<close> its resolution, \<open>Clear\<close> the \<^verbatim>\<open>clearRect\<close> of line 97 and
  \<open>Release\<close> the \<^verbatim>\<open>releaseCanvas\<close> of line 98.
\<close>

datatype event =
    Render number number
  | Op canvas
  | Await
  | Resolved
  | Clear
  | Release

section \<open>Canvas operations\<close>

text \<open>
  Assigning a number to \<^verbatim>\<open>canvas.width\<close> or \<^verbatim>\<open>canvas.height\<close> stores the size and resets
  the bitmap.
\<close>

definition set_width :: "canvas \<Rightarrow> number \<Rightarrow> canvas" where
  "set_width c v = c\<lparr>width := as_long v, pixels := None\<rparr>"

definition set_height :: "canvas \<Rightarrow> number \<Rightarrow> canvas" where
  "set_height c v = c\<lparr>height := as_long v, pixels := None\<rparr>"

text \<open>\<^verbatim>\<open>ctx.clearRect(x, y, w, h)\<close>; a rectangle that covers the canvas clears the bitmap.\<close>

definition clearRect :: "canvas \<Rightarrow> int \<Rightarrow> int \<Rightarrow> int \<Rightarrow> int \<Rightarrow> canvas" where
  "clearRect c x y w h =
     (if x \<le> 0 \<and> y \<le> 0 \<and> width c \<le> x + w \<and> height c \<le> y + h
      then c\<lparr>pixels := None\<rparr> else c)"

definition releaseCanvas :: "env \<Rightarrow> canvas \<Rightarrow> canvas" where
  "releaseCanvas E canvas0 =
     (let canvas1 = set_width canvas0 (Fin 1);
          canvas2 = set_height canvas1 (Fin 1)
      in if getContext2d E canvas2 then clearRect canvas2 0 0 1 1 else canvas2)"

section \<open>Background colour and render\<close>

definition parseBackgroundColor :: "env \<Rightarrow> element \<Rightarrow> string nullable \<Rightarrow> color outcome" where
  "parseBackgroundColor E element backgroundColorOverride =
     (case ownerDocument element of
        None \<Rightarrow> Inl TypeError
      | Some doc \<Rightarrow>
          let documentBackgroundColor =
                (case documentElement doc of
                   Some html \<Rightarrow> parseColor E (computedBackgroundColor html)
                 | None \<Rightarrow> TRANSPARENT E);
              bodyBackgroundColor =
                (case body doc of
                   Some b \<Rightarrow> parseColor E (computedBackgroundColor b)
                 | None \<Rightarrow> TRANSPARENT E);
              defaultBackgroundColor =
                (case backgroundColorOverride of
                   Val s \<Rightarrow> parseColor E s
                 | Null \<Rightarrow> TRANSPARENT E
                 | Unset \<Rightarrow> 0xffffffff)
          in Inr (if (case documentElement doc of
                        Some html \<Rightarrow> eid element = nid html
                      | None \<Rightarrow> False)
                  then (if isTransparent E documentBackgroundColor
                        then (if isTransparent E bodyBackgroundColor
                              then defaultBackgroundColor
                              else bodyBackgroundColor)
                        else documentBackgroundColor)
                  else defaultBackgroundColor))"

definition render :: "env \<Rightarrow> element \<Rightarrow> element \<Rightarrow> Options \<Rightarrow> canvas outcome" where
  "render E element clonedElement opts =
     (case ownerDocument element of
        None \<Rightarrow> Inl TypeError
      | Some doc \<Rightarrow>
         (case defaultView doc of
            None \<Rightarrow> Inl (Error ''Document is not attached to a Window'')
          | Some view \<Rightarrow>
             (let foreignObjectRendering =
                    (case opt_foreignObjectRendering opts of Some b \<Rightarrow> b | None \<Rightarrow> False);
                  bounds =
                    (if isBodyElement E clonedElement \<or> isHTMLElement E clonedElement
                     then parseDocumentSize E (ownerDocument clonedElement)
                     else parseBounds E clonedElement)
              in case parseBackgroundColor E clonedElement (opt_backgroundColor opts) of
                   Inl e \<Rightarrow> Inl e
                 | Inr backgroundColor \<Rightarrow>
                    (let renderOptions =
                          \<lparr> rc_canvas = opt_canvas opts,
                            rc_backgroundColor = backgroundColor,
                            rc_scale =
                              (case opt_scale opts of
                                 Some s \<Rightarrow> s
                               | None \<Rightarrow>
                                  (case devicePixelRatio view of Some r \<Rightarrow> r | None \<Rightarrow> Fin 1)),
                            rc_x = js_add (case opt_x opts of Some v \<Rightarrow> v | None \<Rightarrow> Fin 0)
                                     (b_left bounds),
                            rc_y = js_add (case opt_y opts of Some v \<Rightarrow> v | None \<Rightarrow> Fin 0)
                                     (b_top bounds),
                            rc_width =
                              (case opt_width opts of
                                 Some v \<Rightarrow> v | None \<Rightarrow> js_ceil (b_width bounds)),
                            rc_height =
                              (case opt_height opts of
                                 Some v \<Rightarrow> v | None \<Rightarrow> js_ceil (b_height bounds)) \<rparr>
                     in if foreignObjectRendering
                        then ForeignObjectRenderer_render E renderOptions clonedElement
                        else
                          (let root0 = parseTree E clonedElement;
                               root1 =
                                 (if backgroundColor = styles_backgroundColor root0
                                  then root0\<lparr>styles_backgroundColor := TRANSPARENT E\<rparr>
                                  else root0)
                           in CanvasRenderer_render E renderOptions root1)))))"

section \<open>Isolation: prepare and destroyContainer\<close>

text \<open>
  Modelled from the spec: \<^verbatim>\<open>DocumentCloner\<close> (\<^verbatim>\<open>./dom/document-cloner\<close>) is not part of
  the sources at hand. By section 4.1 a successful \<^verbatim>\<open>toIFrame\<close> inserts a new container
  into the live document, and destroying a container detaches it; destroying a
  container that is no longer in the document reports \<^verbatim>\<open>false\<close> and changes nothing.
\<close>

definition destroyContainer :: "nat \<Rightarrow> 'u world \<Rightarrow> bool \<times> 'u world" where
  "destroyContainer container w =
     (container \<in> attached w, w\<lparr>attached := attached w - {container}\<rparr>)"

definition prepare ::
  "env \<Rightarrow> element js \<Rightarrow> Options \<Rightarrow> 'u world \<Rightarrow> ((element \<times> nat) \<times> 'u world) outcome" where
  "prepare E element opts w =
     (case element of
        JsObject e \<Rightarrow>
          (case ownerDocument e of
             None \<Rightarrow> Inl (Error ''Element is not attached to a Document'')
           | Some doc \<Rightarrow>
              (case defaultView doc of
                 None \<Rightarrow> Inl (Error ''Document is not attached to a Window'')
               | Some view \<Rightarrow>
                  (case clonedReferenceElement E e of
                     None \<Rightarrow> Inl (Rejected ''Unable to find element in cloned iframe'')
                   | Some clonedElement \<Rightarrow>
                      (case toIFrame E e of
                         Inl err \<Rightarrow> Inl err
                       | Inr container \<Rightarrow>
                          Inr ((clonedElement, container),
                               w\<lparr>attached := insert container (attached w)\<rparr>)))))
      | _ \<Rightarrow> Inl (Rejected ''Invalid element provided as first argument''))"

section \<open>Single-shot capture\<close>

definition renderElement ::
  "env \<Rightarrow> element js \<Rightarrow> Options \<Rightarrow> 'u world \<Rightarrow> canvas outcome \<times> 'u world" where
  "renderElement E element opts w =
     (case prepare E element opts w of
        Inl e \<Rightarrow> (Inl e, w)
      | Inr ((clonedElement, container), w1) \<Rightarrow>
         (case element of
            JsObject e \<Rightarrow>
              (case render E e clonedElement opts of
                 Inl err \<Rightarrow> (Inl err, w1)
               | Inr canvas0 \<Rightarrow>
                  (if (case opt_removeContainer opts of Some b \<Rightarrow> b | None \<Rightarrow> True)
                   then (Inr canvas0, snd (destroyContainer container w1))
                   else (Inr canvas0, w1)))
          | _ \<Rightarrow> (Inl TypeError, w1)))"

definition html2canvas ::
  "env \<Rightarrow> element js \<Rightarrow> Options \<Rightarrow> 'u world \<Rightarrow> canvas outcome \<times> 'u world" where
  "html2canvas E element options w = renderElement E element options w"

section \<open>Segmented capture\<close>

text \<open>
  The variables of the \<^verbatim>\<open>while\<close> loop of \<^verbatim>\<open>html2canvasSegmented\<close>: the scratch canvas,
  \<^verbatim>\<open>curTop\<close>, the steps taken so far and the state outside.
\<close>

record 'u sweep_state =
  canvas :: canvas
  curTop :: number
  steps :: "event list"
  outside :: "'u world"

text \<open>
  One pass through the loop body (lines 77 to 99). The result is \<open>Inl\<close> when the pass
  throws or awaits a rejected promise, with the steps taken and the state outside at
  that moment, and otherwise the loop variables after \<^verbatim>\<open>curTop += height\<close>.
  The canvas \<^verbatim>\<open>c\<close> that \<^verbatim>\<open>render\<close> returns is the scratch canvas itself (see the
  painters above), so \<^verbatim>\<open>clearRect\<close> and \<^verbatim>\<open>releaseCanvas\<close> act on the same object.
  \<^verbatim>\<open>ctx.getContextAttributes().willReadFrequently = true\<close> writes to a fresh attributes
  object and has no effect.
\<close>

definition segment ::
  "env \<Rightarrow> element \<Rightarrow> element \<Rightarrow> Options \<Rightarrow> number \<Rightarrow> 'u callback \<Rightarrow> number \<Rightarrow> int \<Rightarrow> int
     \<Rightarrow> 'u sweep_state \<Rightarrow> (failure \<times> event list \<times> 'u world) + 'u sweep_state" where
  "segment E ele clonedElement option segmentHeight op scale width0 totalHeight st =
     (let height0 = js_min (js_sub (long totalHeight) (curTop st)) segmentHeight;
          canvas1 = set_width (canvas st) (js_floor (js_mul scale (long width0)));
          canvas2 = set_height canvas1 (js_floor (js_mul scale height0))
      in if \<not> getContext2d E canvas2
         then Inl (Error ''ctx is null, maybe used too may resources'', steps st, outside st)
         else
          (case render E ele clonedElement
                  (option\<lparr>opt_canvas := Some canvas2, opt_y := Some (curTop st),
                     opt_height := Some height0, opt_width := Some (long (scrollWidth ele))\<rparr>) of
             Inl e \<Rightarrow> Inl (e, steps st @ [Render (curTop st) height0], outside st)
           | Inr c \<Rightarrow>
              (case op c (user (outside st)) of
                 Inl e \<Rightarrow> Inl (e, steps st @ [Render (curTop st) height0, Op c], outside st)
               | Inr (u1, rst) \<Rightarrow>
                  (case (case rst of
                           NotThenable \<Rightarrow> Inr (u1, [])
                         | Thenable settle \<Rightarrow>
                            (case settle u1 of
                               Inl e \<Rightarrow> Inl e
                             | Inr u2 \<Rightarrow> Inr (u2, [Await, Resolved]))) of
                     Inl e \<Rightarrow>
                       Inl (e, steps st @ [Render (curTop st) height0, Op c, Await],
                            (outside st)\<lparr>user := u1\<rparr>)
                   | Inr (u2, awaited) \<Rightarrow>
                       Inr \<lparr> canvas = releaseCanvas E (clearRect c 0 0 (width c) (height c)),
                             curTop = js_add (curTop st) height0,
                             steps = steps st @ [Render (curTop st) height0, Op c]
                                       @ awaited @ [Clear, Release],
                             outside = (outside st)\<lparr>user := u2\<rparr> \<rparr>))))"

text \<open>
  The loop itself. It need not terminate, so it is a partial function: \<open>None\<close> is a
  sweep that never returns.
\<close>

partial_function (option) sweep ::
  "env \<Rightarrow> element \<Rightarrow> element \<Rightarrow> Options \<Rightarrow> number \<Rightarrow> 'u callback \<Rightarrow> number \<Rightarrow> int \<Rightarrow> int
     \<Rightarrow> 'u sweep_state \<Rightarrow> (unit outcome \<times> event list \<times> 'u world) option" where
  "sweep E ele clonedElement option segmentHeight op scale width0 totalHeight st =
     (if js_lt (curTop st) (long totalHeight)
      then (case segment E ele clonedElement option segmentHeight op scale width0 totalHeight st of
              Inl (e, tr, w) \<Rightarrow> Some (Inl e, tr, w)
            | Inr st' \<Rightarrow>
                sweep E ele clonedElement option segmentHeight op scale width0 totalHeight st')
      else Some (Inr (), steps st, outside st))"

text \<open>
  \<^verbatim>\<open>html2canvasSegmented\<close> returns the outcome, the steps of the sweep and the state
  outside. \<^verbatim>\<open>canvas.remove()\<close> detaches a canvas that was never attached, and
  \<^verbatim>\<open>canvas = null\<close> drops the local reference: neither changes the state outside.
\<close>

definition html2canvasSegmented ::
  "env \<Rightarrow> element js \<Rightarrow> Options \<Rightarrow> number \<Rightarrow> 'u callback \<Rightarrow> 'u world
     \<Rightarrow> (unit outcome \<times> event list \<times> 'u world) option" where
  "html2canvasSegmented E ele option segmentHeight op w =
     (case ele of
        JsNull \<Rightarrow> Some (Inl (Error ''element is null''), [], w)
      | JsUndefined \<Rightarrow> Some (Inl (Error ''element is null''), [], w)
      | _ \<Rightarrow>
         (case prepare E ele option w of
            Inl e \<Rightarrow> Some (Inl e, [], w)
          | Inr ((clonedElement, container), w1) \<Rightarrow>
             (let scale = window_devicePixelRatio E;
                  canvas0 = createCanvas E
              in if \<not> getContext2d E canvas0
                 then Some (Inl (Error ''ctx is null, maybe used too may resources''), [], w1)
                 else
                  (case ele of
                     JsObject e \<Rightarrow>
                       (let width0 = scrollWidth e;
                            canvas1 = set_width canvas0 (js_floor (js_mul scale (long width0)));
                            canvas2 = set_height canvas1 (js_floor (js_mul scale segmentHeight));
                            totalHeight = scrollHeight e
                        in case sweep E e clonedElement option segmentHeight op scale width0
                                  totalHeight
                                  \<lparr>canvas = canvas2, curTop = Fin 0, steps = [], outside = w1\<rparr> of
                             None \<Rightarrow> None
                           | Some (Inl err, tr, w2) \<Rightarrow> Some (Inl err, tr, w2)
                           | Some (Inr u, tr, w2) \<Rightarrow>
                               Some (Inr (), tr, snd (destroyContainer container w2)))
                   | _ \<Rightarrow> Some (Inl TypeError, [], w1)))))"

text \<open>
  The variant of \<^verbatim>\<open>html2canvasSegmented\<close> without the two assignments of lines 71 and 72
  (\<^verbatim>\<open>canvas.width\<close> and \<^verbatim>\<open>canvas.height\<close> before the loop); everything else is the same.
\<close>

definition html2canvasSegmented_without_presize ::
  "env \<Rightarrow> element js \<Rightarrow> Options \<Rightarrow> number \<Rightarrow> 'u callback \<Rightarrow> 'u world
     \<Rightarrow> (unit outcome \<times> event list \<times> 'u world) option" where
  "html2canvasSegmented_without_presize E ele option segmentHeight op w =
     (case ele of
        JsNull \<Rightarrow> Some (Inl (Error ''element is null''), [], w)
      | JsUndefined \<Rightarrow> Some (Inl (Error ''element is null''), [], w)
      | _ \<Rightarrow>
         (case prepare E ele option w of
            Inl e \<Rightarrow> Some (Inl e, [], w)
          | Inr ((clonedElement, container), w1) \<Rightarrow>
             (let scale = window_devicePixelRatio E;
                  canvas0 = createCanvas E
              in if \<not> getContext2d E canvas0
                 then Some (Inl (Error ''ctx is null, maybe used too may resources''), [], w1)
                 else
                  (case ele of
                     JsObject e \<Rightarrow>
                       (let width0 = scrollWidth e;
                            totalHeight = scrollHeight e
                        in case sweep E e clonedElement option segmentHeight op scale width0
                                  totalHeight
                                  \<lparr>canvas = canvas0, curTop = Fin 0, steps = [], outside = w1\<rparr> of
                             None \<Rightarrow> None
                           | Some (Inl err, tr, w2) \<Rightarrow> Some (Inl err, tr, w2)
                           | Some (Inr u, tr, w2) \<Rightarrow>
                               Some (Inr (), tr, snd (destroyContainer container w2)))
                   | _ \<Rightarrow> Some (Inl TypeError, [], w1)))))"

text \<open>
  The callback of \<^verbatim>\<open>html2canvasSegmentedGetBlobList\<close>: it returns a promise that encodes
  the raster (\<^verbatim>\<open>toBlob\<close> with the MIME type and quality 1) and pushes the blob onto
  \<^verbatim>\<open>rst\<close>, or rejects when the encoder hands back \<^verbatim>\<open>null\<close>. The caller's state of this
  callback is the array \<^verbatim>\<open>rst\<close>.
\<close>

definition blob_callback :: "env \<Rightarrow> string \<Rightarrow> blob list callback" where
  "blob_callback E mineType c rst =
     Inr (rst, Thenable (\<lambda>rst1. case toBlob E c mineType of
                                   Some b \<Rightarrow> Inr (rst1 @ [b])
                                 | None \<Rightarrow> Inl (Error ''to blob failed!'')))"

definition html2canvasSegmentedGetBlobList ::
  "env \<Rightarrow> element js \<Rightarrow> Options \<Rightarrow> number \<Rightarrow> string option \<Rightarrow> 'u world
     \<Rightarrow> (blob list outcome \<times> event list \<times> 'u world) option" where
  "html2canvasSegmentedGetBlobList E ele option segmentHeight mineType w =
     (let mime = (case mineType of Some m \<Rightarrow> m | None \<Rightarrow> ''image/jpeg'')
      in case html2canvasSegmented E ele option segmentHeight (blob_callback E mime)
                \<lparr>attached = attached w, user = []\<rparr> of
           None \<Rightarrow> None
         | Some (Inl e, tr, w') \<Rightarrow> Some (Inl e, tr, w\<lparr>attached := attached w'\<rparr>)
         | Some (Inr u, tr, w') \<Rightarrow> Some (Inr (user w'), tr, w\<lparr>attached := attached w'\<rparr>))"

section \<open>Reading the steps of a sweep\<close>

text \<open>The windows \<open>(curTop, height)\<close> handed to \<^verbatim>\<open>render\<close>, in order.\<close>

fun windows :: "event list \<Rightarrow> (number \<times> number) list" where
  "windows [] = []"
| "windows (Render y h # es) = (y, h) # windows es"
| "windows (e # es) = windows es"

text \<open>The rasters handed to the callback, in order.\<close>

fun rasters :: "event list \<Rightarrow> canvas list" where
  "rasters [] = []"
| "rasters (Op c # es) = c # rasters es"
| "rasters (e # es) = rasters es"

text \<open>The number of passes of a call that returned: the windows it handed to \<^verbatim>\<open>render\<close>.\<close>

definition passes :: "('a \<times> event list \<times> 'w) option \<Rightarrow> nat option" where
  "passes r = map_option (\<lambda>(out, tr, w). length (windows tr)) r"


text \<open>
  The arithmetic of the loop without its effects and without rounding, for an integral
  positive segment height: the windows \<open>(curTop, height)\<close> from \<open>curTop\<close> on (lines 76, 77
  and 99). The sweep is compared with it where its doubles are integers.
\<close>

function segments :: "int \<Rightarrow> int \<Rightarrow> int \<Rightarrow> (int \<times> int) list" where
  "segments totalHeight segmentHeight y =
     (if y < totalHeight \<and> 0 < segmentHeight
      then (y, min (totalHeight - y) segmentHeight)
             # segments totalHeight segmentHeight (y + min (totalHeight - y) segmentHeight)
      else [])"
  by pat_completeness auto
termination
  by (relation "measure (\<lambda>(totalHeight, segmentHeight, y). nat (totalHeight - y))") auto

declare segments.simps [simp del]

text \<open>
  The order that section 4.5 asks of the steps, as a monitor: a window is painted, the
  callback is called with the raster, a thenable it returned is awaited until it has
  resolved, and only then the raster is cleared and released; the next window is
  painted after that. \<open>monitor\<close> runs the steps through these phases and is \<open>None\<close> as
  soon as a step comes out of turn.
\<close>

datatype phase = Idle | Painting | Called | Awaiting | Resumed | Cleared

fun advance :: "phase \<Rightarrow> event \<Rightarrow> phase option" where
  "advance Idle (Render y h) = Some Painting"
| "advance Painting (Op c) = Some Called"
| "advance Called Await = Some Awaiting"
| "advance Called Clear = Some Cleared"
| "advance Awaiting Resolved = Some Resumed"
| "advance Resumed Clear = Some Cleared"
| "advance Cleared Release = Some Idle"
| "advance p e = None"

fun monitor :: "phase \<Rightarrow> event list \<Rightarrow> phase option" where
  "monitor p [] = Some p"
| "monitor p (e # es) = (case advance p e of None \<Rightarrow> None | Some q \<Rightarrow> monitor q es)"

section \<open>A concrete page\<close>

text \<open>
  A page to run the definitions on: a document with a transparent root element and a
  red body, an element 80 pixels wide and 250 pixels high, a device pixel ratio of 2,
  painters that fill the target canvas, and an encoder that never fails.
\<close>

definition doc0 :: document where
  "doc0 = \<lparr> defaultView = Some \<lparr>devicePixelRatio = Some (Fin 2)\<rparr>,
            documentElement = Some \<lparr>nid = 0, computedBackgroundColor = ''rgba(0, 0, 0, 0)''\<rparr>,
            body = Some \<lparr>nid = 1, computedBackgroundColor = ''rgb(255, 0, 0)''\<rparr> \<rparr>"

definition ele0 :: element where
  "ele0 = \<lparr> eid = 2, scrollWidth = 80, scrollHeight = 250, ownerDocument = Some doc0 \<rparr>"

definition html0 :: element where
  "html0 = \<lparr> eid = 0, scrollWidth = 80, scrollHeight = 250, ownerDocument = Some doc0 \<rparr>"

definition paint0 :: "RenderConfigurations \<Rightarrow> canvas outcome" where
  "paint0 cfg =
     Inr \<lparr> width = as_long (js_floor (js_mul (rc_width cfg) (rc_scale cfg))),
           height = as_long (js_floor (js_mul (rc_height cfg) (rc_scale cfg))),
           pixels = Some (nat (as_long (js_floor (rc_y cfg)))) \<rparr>"

definition parseColor0 :: "string \<Rightarrow> color" where
  "parseColor0 s =
     (if s = ''rgb(255, 0, 0)'' then 0xff0000ff
      else if s = ''rgb(0, 0, 255)'' then 0x0000ffff
      else 0)"

definition env0 :: env where
  "env0 = \<lparr> parseColor = parseColor0,
            isTransparent = (\<lambda>c. c mod 256 = 0),
            TRANSPARENT = 0,
            isBodyElement = (\<lambda>e. eid e = 1),
            isHTMLElement = (\<lambda>e. eid e = 0),
            parseDocumentSize =
              (\<lambda>d. \<lparr>b_left = Fin 0, b_top = Fin 0, b_width = Fin 80, b_height = Fin 250\<rparr>),
            parseBounds =
              (\<lambda>e. \<lparr>b_left = Fin 0, b_top = Fin 0, b_width = Fin 80, b_height = Fin 250\<rparr>),
            parseTree = (\<lambda>e. \<lparr>styles_backgroundColor = 0xff0000ff, subtree = eid e\<rparr>),
            CanvasRenderer_render = (\<lambda>cfg tree. paint0 cfg),
            ForeignObjectRenderer_render = (\<lambda>cfg e. paint0 cfg),
            clonedReferenceElement = (\<lambda>e. Some e),
            toIFrame = (\<lambda>e. Inr 7),
            createCanvas = \<lparr>width = 300, height = 150, pixels = None\<rparr>,
            getContext2d = (\<lambda>c. True),
            window_devicePixelRatio = Fin 2,
            toBlob = (\<lambda>c m. Some (Blob m (case pixels c of Some n \<Rightarrow> n | None \<Rightarrow> 0))) \<rparr>"

definition options0 :: Options where
  "options0 = \<lparr> opt_backgroundColor = Unset, opt_foreignObjectRendering = None,
                opt_removeContainer = None, opt_canvas = None, opt_scale = None,
                opt_x = None, opt_y = None, opt_width = None, opt_height = None \<rparr>"

definition world0 :: "nat world" where
  "world0 = \<lparr> attached = {}, user = 0 \<rparr>"

text \<open>
  The double nearest to 99.9, a fractional segment height, and the double \<open>2\<^sup>-\<^sup>6\<^sup>0\<close>, a
  segment height far below one pixel.
\<close>

definition height_99_9 :: number where
  "height_99_9 = Fin (3514918771674317 / 35184372088832)"


text \<open>A callback that counts its calls and returns \<^verbatim>\<open>undefined\<close>.\<close>

definition count_op :: "nat callback" where
  "count_op c n = Inr (Suc n, NotThenable)"

text \<open>A callback that returns a promise; the count is taken when the promise resolves.\<close>

definition async_op :: "nat callback" where
  "async_op c n = Inr (n, Thenable (\<lambda>m. Inr (Suc m)))"

text \<open>A callback that throws on its first call.\<close>

definition failing_op :: "nat callback" where
  "failing_op c n = Inl (Error ''callback failed'')"

section \<open>Unfolding the definitions\<close>

lemmas fixture_defs = env0_def ele0_def html0_def doc0_def options0_def world0_def count_op_def async_op_def failing_op_def paint0_def parseColor0_def

lemmas model_defs = html2canvasSegmented_def prepare_def segment_def render_def parseBackgroundColor_def set_width_def set_height_def clearRect_def releaseCanvas_def destroyContainer_def

section \<open>Rounding to a double\<close>

lemma round_even_of_int: "round_even (of_int n) = n"
  by (simp add: round_even_def Let_def)

lemma round_even_bounds: "\<lfloor>r\<rfloor> \<le> round_even r \<and> round_even r \<le> \<lfloor>r\<rfloor> + 1"
  by (simp add: round_even_def Let_def)

lemma powi_powr: "(2 :: real) powi k = 2 powr (of_int k)"
  by (simp add: powr_real_of_int')

lemma floor_log2_eq:
  assumes "2 powi k \<le> x" and "x < 2 powi (k + 1)"
  shows "\<lfloor>log 2 x\<rfloor> = k"
proof -
  have pos: "0 < x" using assms(1) zero_less_power_int [of "2 :: real" k] by linarith
  have "2 powr (real_of_int k) \<le> x \<and> x < 2 powr (real_of_int k + 1)"
    using assms unfolding powi_powr by simp
  then show ?thesis using floor_log_eq_powr_iff [OF pos, of 2 k] by simp
qed

lemma floor_log2_le:
  assumes "0 < x" and "x < 2 powi (k + 1)"
  shows "\<lfloor>log 2 x\<rfloor> \<le> k"
proof -
  have "x < 2 powr (of_int (k + 1))" using assms(2) unfolding powi_powr .
  then have "log 2 x < of_int (k + 1)"
    using assms(1) by (simp add: less_powr_iff)
  then show ?thesis by linarith
qed

lemma fl_eqI:
  assumes "2 powi k \<le> \<bar>x\<bar>" and "\<bar>x\<bar> < 2 powi (k + 1)" and "- 1022 \<le> k"
    and "round_even (x / 2 powi (k - 52)) = m"
    and "\<bar>of_int m * 2 powi (k - 52)\<bar> < (2 :: real) ^ 1024"
  shows "fl x = Fin (of_int m * 2 powi (k - 52))"
proof -
  have "(0 :: real) < 2 powi k" by simp
  with assms(1) have "0 < \<bar>x\<bar>" by linarith
  then have nz: "x \<noteq> 0" by simp
  have e: "max \<lfloor>log 2 \<bar>x\<bar>\<rfloor> (- 1022) = k"
    using floor_log2_eq [OF assms(1,2)] assms(3) by simp
  show ?thesis
    unfolding fl_def Let_def e using nz assms(4,5) by simp
qed

lemma fl_dyadic:
  assumes "\<bar>m\<bar> < 2 ^ 53" and "- 1074 \<le> e" and "e \<le> 970"
  shows "fl (of_int m * 2 powi e) = Fin (of_int m * 2 powi e)"
proof (cases "m = 0")
  case True
  then show ?thesis by (simp add: fl_def)
next
  case False
  define x :: real where "x = of_int m * 2 powi e"
  define E where "E = max \<lfloor>log 2 \<bar>x\<bar>\<rfloor> (- 1022)"
  have p: "(0 :: real) < 2 powi e" by simp
  have nz: "x \<noteq> 0" using False p by (simp add: x_def)
  have ax: "\<bar>x\<bar> = of_int \<bar>m\<bar> * 2 powi e" using p by (simp add: x_def abs_mult)
  have "(of_int \<bar>m\<bar> :: real) < of_int (2 ^ 53)" using assms(1) by (simp only: of_int_less_iff)
  then have bound: "\<bar>x\<bar> < 2 ^ 53 * 2 powi e" using p by (simp add: ax)
  also have "\<dots> = 2 powi (e + 52 + 1)" by (simp add: power_int_add)
  finally have "\<lfloor>log 2 \<bar>x\<bar>\<rfloor> \<le> e + 52" using nz by (intro floor_log2_le) simp_all
  then have E: "E - 52 \<le> e" using assms(2) by (simp add: E_def)
  define d where "d = nat (e - (E - 52))"
  have "x / 2 powi (E - 52) = of_int m * 2 powi (e - (E - 52))"
    by (simp add: x_def power_int_diff)
  also have "\<dots> = of_int m * 2 ^ d" using E by (simp add: d_def power_int_def)
  also have "\<dots> = of_int (m * 2 ^ d)" by simp
  finally have q: "x / 2 powi (E - 52) = of_int (m * 2 ^ d)" .
  have restore: "of_int (m * 2 ^ d) * 2 powi (E - 52) = x"
    using q by (simp add: field_simps)
  have "(2 :: real) powi e \<le> 2 powi 970"
    using assms(3) by (intro power_int_increasing) simp_all
  then have "\<bar>x\<bar> < 2 ^ 53 * 2 powi 970" using bound by simp
  also have "\<dots> < 2 ^ 1024" by simp
  finally have fin: "\<not> 2 ^ 1024 \<le> \<bar>x\<bar>" by simp
  show ?thesis
    unfolding x_def [symmetric] fl_def Let_def E_def [symmetric] q round_even_of_int restore
    using nz fin by simp
qed

lemma fl_int:
  assumes "\<bar>n\<bar> \<le> 2 ^ 53"
  shows "fl (of_int n) = Fin (of_int n)"
proof (cases "\<bar>n\<bar> < 2 ^ 53")
  case True
  then show ?thesis using fl_dyadic [of n 0] by simp
next
  case False
  with assms have "n = 2 ^ 53 \<or> n = - (2 ^ 53)" by linarith
  then show ?thesis
    using fl_dyadic [of 1 53] fl_dyadic [of "- 1" 53] by auto
qed

lemma fl_0: "fl 0 = Fin 0"
  by (simp add: fl_def)

lemma fl_1: "fl 1 = Fin 1"
  using fl_int [of 1] by simp

lemma fl_numeral: "numeral k \<le> (2 :: int) ^ 53 \<Longrightarrow> fl (numeral k) = Fin (numeral k)"
  using fl_int [of "numeral k"] by simp

lemma fl_neg_numeral: "numeral k \<le> (2 :: int) ^ 53 \<Longrightarrow> fl (- numeral k) = Fin (- numeral k)"
  using fl_int [of "- numeral k"] by simp

lemma fl_nonneg:
  assumes "0 \<le> x"
  shows "fl x = PInfinity \<or> (\<exists>y\<ge>0. fl x = Fin y)"
proof (cases "x = 0")
  case True
  then show ?thesis by (simp add: fl_def)
next
  case False
  define u :: real where "u = 2 powi (max \<lfloor>log 2 \<bar>x\<bar>\<rfloor> (- 1022) - 52)"
  have u: "0 < u" by (simp add: u_def)
  have "0 \<le> x / u" using assms u by simp
  then have "0 \<le> \<lfloor>x / u\<rfloor>" by simp
  then have "0 \<le> round_even (x / u)" using round_even_bounds [of "x / u"] by linarith
  then have "0 \<le> real_of_int (round_even (x / u)) * u" using u by simp
  then show ?thesis
    using False assms unfolding fl_def Let_def u_def [symmetric] by auto
qed

lemma fl_nonpos:
  assumes "x \<le> 0"
  shows "fl x = NInfinity \<or> (\<exists>y\<le>0. fl x = Fin y)"
proof (cases "x = 0")
  case True
  then show ?thesis by (simp add: fl_def)
next
  case False
  define u :: real where "u = 2 powi (max \<lfloor>log 2 \<bar>x\<bar>\<rfloor> (- 1022) - 52)"
  have u: "0 < u" by (simp add: u_def)
  have "x / u < 0" using assms False u by (simp add: divide_neg_pos)
  then have "\<lfloor>x / u\<rfloor> < 0" by (simp add: floor_less_iff)
  then have "round_even (x / u) \<le> 0" using round_even_bounds [of "x / u"] by linarith
  then have "real_of_int (round_even (x / u)) * u \<le> 0" using u by (simp add: mult_le_0_iff)
  then show ?thesis
    using False assms unfolding fl_def Let_def u_def [symmetric] by auto
qed






lemmas number_simps = Let_def long_def js_sub_def fl_0 fl_1 fl_numeral fl_neg_numeral

section \<open>Reading the steps\<close>

lemma windows_append: "windows (xs @ ys) = windows xs @ windows ys"
  by (induction xs rule: windows.induct) simp_all

lemma rasters_append: "rasters (xs @ ys) = rasters xs @ rasters ys"
  by (induction xs rule: rasters.induct) simp_all

lemma monitor_append:
  "monitor p (xs @ ys) = (case monitor p xs of None \<Rightarrow> None | Some q \<Rightarrow> monitor q ys)"
  by (induction xs arbitrary: p) (simp_all split: option.splits)




section \<open>One pass of the loop\<close>

lemma resized_canvas:
  "set_height (set_width c a) b = \<lparr>width = as_long a, height = as_long b, pixels = None\<rparr>"
  by (cases c) (simp add: set_width_def set_height_def)

lemma segment_canvas: "segment E ele cl option sh op scale w0 H (st\<lparr>canvas := c\<rparr>) = segment E ele cl option sh op scale w0 H st"
  by (simp add: segment_def resized_canvas Let_def cong: if_cong sum.case_cong prod.case_cong)

lemma segment_Inr:
  assumes "segment E ele cl option sh op scale w0 H st = Inr st'"
  shows "curTop st' = js_add (curTop st) (js_min (js_sub (long H) (curTop st)) sh)"
    and "attached (outside st') = attached (outside st)"
    and "\<exists>c aw. steps st' = steps st @ [Render (curTop st) (js_min (js_sub (long H) (curTop st)) sh), Op c] @ aw @ [Clear, Release]
           \<and> (aw = [] \<or> aw = [Await, Resolved])"
  using assms
  by (auto simp: segment_def Let_def split: if_splits sum.splits prod.splits returned.splits)

lemma segment_Inl:
  assumes "segment E ele cl option sh op scale w0 H st = Inl (e, tr, w)"
  shows "attached w = attached (outside st)"
    and "tr = steps st
       \<or> tr = steps st @ [Render (curTop st) (js_min (js_sub (long H) (curTop st)) sh)]
       \<or> (\<exists>c. tr = steps st @ [Render (curTop st) (js_min (js_sub (long H) (curTop st)) sh), Op c])
       \<or> (\<exists>c. tr = steps st @ [Render (curTop st) (js_min (js_sub (long H) (curTop st)) sh), Op c, Await])"
  using assms
  by (auto simp: segment_def Let_def split: if_splits sum.splits prod.splits returned.splits)



lemma segment_Inr_render:
  assumes "segment E ele cl option sh op scale w0 H st = Inr st'"
  shows "\<exists>c aw. render E ele cl
           (option\<lparr>opt_canvas := Some \<lparr>width = as_long (js_floor (js_mul scale (long w0))),
                        height = as_long (js_floor (js_mul scale (js_min (js_sub (long H) (curTop st)) sh))), pixels = None\<rparr>,
              opt_y := Some (curTop st), opt_height := Some (js_min (js_sub (long H) (curTop st)) sh),
              opt_width := Some (long (scrollWidth ele))\<rparr>) = Inr c
         \<and> windows (steps st') = windows (steps st) @ [(curTop st, js_min (js_sub (long H) (curTop st)) sh)]
         \<and> rasters (steps st') = rasters (steps st) @ [c]"
  using assms
  by (auto simp: segment_def resized_canvas Let_def windows_append rasters_append
      split: if_splits sum.splits prod.splits returned.splits)

lemma segment_render_fails:
  assumes "getContext2d E \<lparr>width = as_long (js_floor (js_mul scale (long w0))),
                            height = as_long (js_floor (js_mul scale (js_min (js_sub (long H) (curTop st)) sh))), pixels = None\<rparr>"
    and "render E ele cl
           (option\<lparr>opt_canvas := Some \<lparr>width = as_long (js_floor (js_mul scale (long w0))),
                        height = as_long (js_floor (js_mul scale (js_min (js_sub (long H) (curTop st)) sh))), pixels = None\<rparr>,
              opt_y := Some (curTop st), opt_height := Some (js_min (js_sub (long H) (curTop st)) sh),
              opt_width := Some (long (scrollWidth ele))\<rparr>) = Inl err"
  shows "segment E ele cl option sh op scale w0 H st
           = Inl (err, steps st @ [Render (curTop st) (js_min (js_sub (long H) (curTop st)) sh)], outside st)"
  using assms by (simp add: segment_def resized_canvas Let_def)

lemma segment_op_fails:
  assumes "getContext2d E \<lparr>width = as_long (js_floor (js_mul scale (long w0))),
                            height = as_long (js_floor (js_mul scale (js_min (js_sub (long H) (curTop st)) sh))), pixels = None\<rparr>"
    and "render E ele cl
           (option\<lparr>opt_canvas := Some \<lparr>width = as_long (js_floor (js_mul scale (long w0))),
                        height = as_long (js_floor (js_mul scale (js_min (js_sub (long H) (curTop st)) sh))), pixels = None\<rparr>,
              opt_y := Some (curTop st), opt_height := Some (js_min (js_sub (long H) (curTop st)) sh),
              opt_width := Some (long (scrollWidth ele))\<rparr>) = Inr c"
    and "op c (user (outside st)) = Inl err"
  shows "segment E ele cl option sh op scale w0 H st
           = Inl (err, steps st @ [Render (curTop st) (js_min (js_sub (long H) (curTop st)) sh), Op c], outside st)"
  using assms by (simp add: segment_def resized_canvas Let_def)

lemma segment_promise_rejects:
  assumes "getContext2d E \<lparr>width = as_long (js_floor (js_mul scale (long w0))),
                            height = as_long (js_floor (js_mul scale (js_min (js_sub (long H) (curTop st)) sh))), pixels = None\<rparr>"
    and "render E ele cl
           (option\<lparr>opt_canvas := Some \<lparr>width = as_long (js_floor (js_mul scale (long w0))),
                        height = as_long (js_floor (js_mul scale (js_min (js_sub (long H) (curTop st)) sh))), pixels = None\<rparr>,
              opt_y := Some (curTop st), opt_height := Some (js_min (js_sub (long H) (curTop st)) sh),
              opt_width := Some (long (scrollWidth ele))\<rparr>) = Inr c"
    and "op c (user (outside st)) = Inr (u1, Thenable settle)"
    and "settle u1 = Inl err"
  shows "segment E ele cl option sh op scale w0 H st
           = Inl (err, steps st @ [Render (curTop st) (js_min (js_sub (long H) (curTop st)) sh), Op c, Await],
                  (outside st)\<lparr>user := u1\<rparr>)"
  using assms by (simp add: segment_def resized_canvas Let_def)

lemma segment_promise_awaited:
  assumes "segment E ele cl option sh op scale w0 H st = Inr st'"
    and "render E ele cl
           (option\<lparr>opt_canvas := Some \<lparr>width = as_long (js_floor (js_mul scale (long w0))),
                        height = as_long (js_floor (js_mul scale (js_min (js_sub (long H) (curTop st)) sh))), pixels = None\<rparr>,
              opt_y := Some (curTop st), opt_height := Some (js_min (js_sub (long H) (curTop st)) sh),
              opt_width := Some (long (scrollWidth ele))\<rparr>) = Inr c"
    and "op c (user (outside st)) = Inr (u1, Thenable settle)"
  shows "\<exists>u2. settle u1 = Inr u2
            \<and> outside st' = (outside st)\<lparr>user := u2\<rparr>
            \<and> steps st' = steps st @ [Render (curTop st) (js_min (js_sub (long H) (curTop st)) sh), Op c,
                                       Await, Resolved, Clear, Release]"
  using assms
  by (auto simp: segment_def resized_canvas Let_def split: if_splits sum.splits)

lemma segment_blob_Inr:
  assumes "segment E ele cl option sh (blob_callback E m) scale w0 H st = Inr st'"
  shows "\<exists>c b. toBlob E c m = Some b
           \<and> user (outside st') = user (outside st) @ [b]
           \<and> rasters (steps st') = rasters (steps st) @ [c]"
  using assms
  by (auto simp: segment_def blob_callback_def Let_def rasters_append
      split: if_splits sum.splits option.splits)

lemma segment_blob_Inl:
  assumes "segment E ele cl option sh (blob_callback E m) scale w0 H st = Inl (err, tr, w)"
  shows "rasters tr = rasters (steps st)
       \<or> (\<exists>c. rasters tr = rasters (steps st) @ [c] \<and> toBlob E c m = None
              \<and> err = Error ''to blob failed!'')"
  using assms
  by (auto simp: segment_def blob_callback_def Let_def rasters_append
      split: if_splits sum.splits option.splits)



section \<open>The loop\<close>

lemma sweep_canvas: "sweep E ele cl option sh op scale w0 H (st\<lparr>canvas := c\<rparr>) = sweep E ele cl option sh op scale w0 H st"
  by (simp add: sweep.simps [of _ _ _ _ _ _ _ _ _ "st\<lparr>canvas := c\<rparr>"]
        sweep.simps [of _ _ _ _ _ _ _ _ _ st] segment_canvas)


lemma sweep_fail:
  "js_lt (curTop st) (long H) \<Longrightarrow> segment E ele cl option sh op scale w0 H st = Inl (e, tr, w) \<Longrightarrow>
     sweep E ele cl option sh op scale w0 H st = Some (Inl e, tr, w)"
  by (subst sweep.simps) simp



lemmas sweep_induct = sweep.raw_induct [rotated 1, consumes 1, case_names pass]

lemma sweep_attached:
  assumes "sweep E ele cl option sh op scale w0 H st = Some r"
  shows "attached (snd (snd r)) = attached (outside st)"
  using assms
proof (induction rule: sweep_induct)
  case (pass sweep' E ele cl option sh op scale w0 H st r)
  show ?case
  proof (cases "js_lt (curTop st) (long H)")
    case False
    with pass(2) show ?thesis by auto
  next
    case True
    show ?thesis
    proof (cases "segment E ele cl option sh op scale w0 H st")
      case (Inl x)
      obtain e tr w where x: "x = (e, tr, w)" by (cases x)
      have "r = (Inl e, tr, w)" using True pass(2) Inl x by simp
      then show ?thesis using segment_Inl(1) [OF Inl [unfolded x]] by simp
    next
      case (Inr st')
      with True pass(2) have "sweep' E ele cl option sh op scale w0 H st' = Some r" by simp
      then have "attached (snd (snd r)) = attached (outside st')" by (rule pass(1))
      then show ?thesis using segment_Inr(2) [OF Inr] by simp
    qed
  qed
qed

lemma sweep_monitor:
  assumes "sweep E ele cl option sh op scale w0 H st = Some r"
    and "monitor Idle (steps st) = Some Idle"
  shows "\<exists>p. monitor Idle (fst (snd r)) = Some p
           \<and> (p = Idle \<or> p = Painting \<or> p = Called \<or> p = Awaiting)
           \<and> ((\<exists>u. fst r = Inr u) \<longrightarrow> p = Idle)"
  using assms
proof (induction rule: sweep_induct)
  case (pass sweep' E ele cl option sh op scale w0 H st r)
  show ?case
  proof (cases "js_lt (curTop st) (long H)")
    case False
    with pass(2,3) show ?thesis by auto
  next
    case True
    show ?thesis
    proof (cases "segment E ele cl option sh op scale w0 H st")
      case (Inl x)
      obtain e tr w where x: "x = (e, tr, w)" by (cases x)
      have r: "r = (Inl e, tr, w)" using True pass(2) Inl x by simp
      show ?thesis
        using segment_Inl(2) [OF Inl [unfolded x]] pass(3)
        by (auto simp: r monitor_append)
    next
      case (Inr st')
      with True pass(2) have run: "sweep' E ele cl option sh op scale w0 H st' = Some r" by simp
      have "monitor Idle (steps st') = Some Idle"
        using segment_Inr(3) [OF Inr] pass(3) by (auto simp: monitor_append)
      with run show ?thesis by (rule pass(1))
    qed
  qed
qed




lemma sweep_rasters:
  assumes "sweep E ele cl option sh op scale w0 H st = Some (Inr u, tr, w)"
    and "list_all2 (\<lambda>(y, h) c. render E ele cl
           (option\<lparr>opt_canvas := Some \<lparr>width = as_long (js_floor (js_mul scale (long w0))),
                        height = as_long (js_floor (js_mul scale h)), pixels = None\<rparr>,
              opt_y := Some y, opt_height := Some h,
              opt_width := Some (long (scrollWidth ele))\<rparr>) = Inr c)
          (windows (steps st)) (rasters (steps st))"
  shows "list_all2 (\<lambda>(y, h) c. render E ele cl
           (option\<lparr>opt_canvas := Some \<lparr>width = as_long (js_floor (js_mul scale (long w0))),
                        height = as_long (js_floor (js_mul scale h)), pixels = None\<rparr>,
              opt_y := Some y, opt_height := Some h,
              opt_width := Some (long (scrollWidth ele))\<rparr>) = Inr c)
          (windows tr) (rasters tr)"
  using assms
proof (induction E ele cl option sh op scale w0 H st "(Inr u :: unit outcome, tr, w)" rule: sweep_induct)
  case (pass sweep' E ele cl option sh op scale w0 H st)
  show ?case
  proof (cases "js_lt (curTop st) (long H)")
    case False
    with pass(2,3) show ?thesis by auto
  next
    case True
    show ?thesis
    proof (cases "segment E ele cl option sh op scale w0 H st")
      case (Inl x)
      then show ?thesis using True pass(2) by (cases x) simp
    next
      case (Inr st')
      with True pass(2) have run: "sweep' E ele cl option sh op scale w0 H st' = Some (Inr u, tr, w)" by simp
      from segment_Inr_render [OF Inr] pass(3)
      have "list_all2 (\<lambda>(y, h) c. render E ele cl
           (option\<lparr>opt_canvas := Some \<lparr>width = as_long (js_floor (js_mul scale (long w0))),
                        height = as_long (js_floor (js_mul scale h)), pixels = None\<rparr>,
              opt_y := Some y, opt_height := Some h,
              opt_width := Some (long (scrollWidth ele))\<rparr>) = Inr c)
          (windows (steps st')) (rasters (steps st'))"
        by (auto intro!: list_all2_appendI)
      with run show ?thesis by (rule pass(1))
    qed
  qed
qed

lemma encoded_all:
  "map Some bs = map f cs \<Longrightarrow> c \<in> set cs \<Longrightarrow> f c \<noteq> None"
  by (metis (no_types, lifting) image_iff list.set_map option.distinct(1))

lemma sweep_blobs:
  assumes "sweep E ele cl option sh op scale w0 H st = Some r"
    and "op = blob_callback E m"
    and "map Some (user (outside st)) = map (\<lambda>c. toBlob E c m) (rasters (steps st))"
  shows "((\<exists>u. fst r = Inr u) \<longrightarrow>
            map Some (user (snd (snd r))) = map (\<lambda>c. toBlob E c m) (rasters (fst (snd r))))
       \<and> ((\<exists>c\<in>set (rasters (fst (snd r))). toBlob E c m = None) \<longrightarrow>
            fst r = Inl (Error ''to blob failed!''))"
  using assms
proof (induction rule: sweep_induct)
  case (pass sweep' E ele cl option sh op scale w0 H st r)
  note inv = pass(4)
  show ?case
  proof (cases "js_lt (curTop st) (long H)")
    case False
    with pass(2) have "r = (Inr (), steps st, outside st)" by simp
    with inv show ?thesis by (auto dest: encoded_all)
  next
    case True
    show ?thesis
    proof (cases "segment E ele cl option sh op scale w0 H st")
      case (Inl x)
      obtain err tr w where x: "x = (err, tr, w)" by (cases x)
      have r: "r = (Inl err, tr, w)" using True pass(2) Inl x by simp
      from segment_blob_Inl [OF Inl [unfolded x pass(3)]] inv
      show ?thesis unfolding r by (auto dest: encoded_all)
    next
      case (Inr st')
      with True pass(2) have run: "sweep' E ele cl option sh op scale w0 H st' = Some r" by simp
      from segment_blob_Inr [OF Inr [unfolded pass(3)]] inv
      have "map Some (user (outside st')) = map (\<lambda>c. toBlob E c m) (rasters (steps st'))"
        by auto
      with run pass(3) show ?thesis by (rule pass(1))
    qed
  qed
qed

section \<open>The windows of a sweep\<close>

lemma segments_done: "\<not> y < H \<Longrightarrow> segments H sh y = []"
  by (simp add: segments.simps)

lemma segments_Cons:
  "y < H \<Longrightarrow> 0 < sh \<Longrightarrow>
     segments H sh y = (y, min (H - y) sh) # segments H sh (y + min (H - y) sh)"
  by (subst segments.simps) simp



lemma ceiling_step:
  fixes a b :: int
  assumes "0 < b" and "b < a"
  shows "nat \<lceil>real_of_int a / real_of_int b\<rceil> = Suc (nat \<lceil>real_of_int (a - b) / real_of_int b\<rceil>)"
proof -
  have "real_of_int (a - b) / real_of_int b = real_of_int a / real_of_int b - 1"
    using assms by (simp add: field_simps)
  then have eq: "\<lceil>real_of_int (a - b) / real_of_int b\<rceil> = \<lceil>real_of_int a / real_of_int b\<rceil> - 1"
    by (simp only: ceiling_diff_one)
  have "1 < real_of_int a / real_of_int b"
    using assms by simp
  then have "1 < \<lceil>real_of_int a / real_of_int b\<rceil>"
    by (simp add: less_ceiling_iff)
  then show ?thesis by (simp only: eq)
qed

lemma ceiling_unit:
  fixes a b :: int
  assumes "0 < a" and "a \<le> b"
  shows "nat \<lceil>real_of_int a / real_of_int b\<rceil> = Suc 0"
proof -
  have "0 < real_of_int a / real_of_int b" "real_of_int a / real_of_int b \<le> 1"
    using assms by simp_all
  then have "\<lceil>real_of_int a / real_of_int b\<rceil> = 1" by (simp add: ceiling_eq_iff)
  then show ?thesis by simp
qed

lemma segments_length:
  "0 < sh \<Longrightarrow> length (segments H sh y) = nat \<lceil>real_of_int (H - y) / real_of_int sh\<rceil>"
proof (induction H sh y rule: segments.induct)
  case (1 H sh y)
  show ?case
  proof (cases "y < H")
    case False
    then have "real_of_int (H - y) / real_of_int sh \<le> 0"
      using 1(2) by (simp add: divide_nonpos_pos)
    then have "\<lceil>real_of_int (H - y) / real_of_int sh\<rceil> \<le> 0" by simp
    with False show ?thesis by (simp add: segments_done)
  next
    case True
    let ?y' = "y + min (H - y) sh"
    from True 1(2) have eq: "segments H sh y = (y, min (H - y) sh) # segments H sh ?y'"
      by (simp add: segments_Cons)
    from True 1(2) have ih: "length (segments H sh ?y') = nat \<lceil>real_of_int (H - ?y') / real_of_int sh\<rceil>"
      by (intro 1(1)) simp_all
    show ?thesis
    proof (cases "sh < H - y")
      case True
      then have "?y' = y + sh" by simp
      with ih have "length (segments H sh ?y') = nat \<lceil>real_of_int ((H - y) - sh) / real_of_int sh\<rceil>"
        by (simp add: algebra_simps)
      then show ?thesis using ceiling_step [OF 1(2) True] by (simp add: eq)
    next
      case False
      with True have "segments H sh ?y' = []" by (intro segments_done) simp
      moreover have "nat \<lceil>real_of_int (H - y) / real_of_int sh\<rceil> = Suc 0"
        using True False by (intro ceiling_unit) simp_all
      ultimately show ?thesis by (simp add: eq)
    qed
  qed
qed


section \<open>The whole call\<close>

lemma segmented_unfold:
  "html2canvasSegmented E (JsObject e) option sh op w =
     (case prepare E (JsObject e) option w of
        Inl err \<Rightarrow> Some (Inl err, [], w)
      | Inr ((cl, container), w1) \<Rightarrow>
          if \<not> getContext2d E (createCanvas E)
          then Some (Inl (Error ''ctx is null, maybe used too may resources''), [], w1)
          else (case sweep E e cl option sh op (window_devicePixelRatio E) (scrollWidth e)
                      (scrollHeight e)
                      \<lparr>canvas = createCanvas E, curTop = Fin 0, steps = [], outside = w1\<rparr> of
                  None \<Rightarrow> None
                | Some (Inl err, tr, w2) \<Rightarrow> Some (Inl err, tr, w2)
                | Some (Inr u, tr, w2) \<Rightarrow> Some (Inr (), tr, snd (destroyContainer container w2))))"
proof -
  have eq: "sweep E e cl option sh op scale w0 H
              \<lparr>canvas = set_height (set_width c a) b, curTop = Fin 0, steps = [], outside = w1\<rparr>
          = sweep E e cl option sh op scale w0 H
              \<lparr>canvas = c, curTop = Fin 0, steps = [], outside = w1\<rparr>"
    for cl scale w0 H a b and c :: canvas and w1 :: "'a world"
    using sweep_canvas [where st = "\<lparr>canvas = c, curTop = Fin 0, steps = [], outside = w1\<rparr>"
        and c = "set_height (set_width c a) b"]
    by simp
  show ?thesis
    unfolding html2canvasSegmented_def Let_def
    by (simp add: eq cong: sum.case_cong prod.case_cong if_cong)
qed





lemma prepare_attached:
  "prepare E ele option w = Inr ((cl, container), w1) \<Longrightarrow>
     w1 = w\<lparr>attached := insert container (attached w)\<rparr>"
  by (auto simp: prepare_def split: js.splits option.splits sum.splits)

lemma prepare_cloned:
  "prepare E (JsObject e) option w = Inr ((cl, container), w1) \<Longrightarrow>
     clonedReferenceElement E e = Some cl"
  by (auto simp: prepare_def split: option.splits sum.splits)

lemma segmented_failure:
  assumes "prepare E (JsObject e) option w = Inr ((cl, container), w1)"
    and "html2canvasSegmented E (JsObject e) option sh op w = Some (Inl err, tr, w')"
  shows "attached w' = insert container (attached w)"
proof (cases "getContext2d E (createCanvas E)")
  case False
  with assms show ?thesis
    by (auto simp: segmented_unfold dest: prepare_attached)
next
  case True
  let ?st = "\<lparr>canvas = createCanvas E, curTop = Fin 0, steps = [], outside = w1\<rparr>"
  from assms True have "sweep E e cl option sh op (window_devicePixelRatio E) (scrollWidth e)
      (scrollHeight e) ?st = Some (Inl err, tr, w')"
    by (auto simp: segmented_unfold split: option.splits sum.splits)
  from sweep_attached [OF this] have "attached w' = attached w1" by simp
  with prepare_attached [OF assms(1)] show ?thesis by simp
qed

lemma segmented_monitor:
  assumes "html2canvasSegmented E ele option sh op w = Some (out, tr, w')"
  shows "\<exists>p. monitor Idle tr = Some p
           \<and> (p = Idle \<or> p = Painting \<or> p = Called \<or> p = Awaiting)
           \<and> (out = Inr () \<longrightarrow> p = Idle)"
proof (cases ele)
  case (JsObject e)
  show ?thesis
  proof (cases "prepare E (JsObject e) option w")
    case (Inl x)
    with assms JsObject show ?thesis by (auto simp: segmented_unfold)
  next
    case (Inr x)
    obtain cl container w1 where x: "x = ((cl, container), w1)" by (cases x) auto
    show ?thesis
    proof (cases "getContext2d E (createCanvas E)")
      case False
      with assms JsObject Inr x show ?thesis by (auto simp: segmented_unfold)
    next
      case True
      let ?st = "\<lparr>canvas = createCanvas E, curTop = Fin 0, steps = [], outside = w1\<rparr>"
      from assms JsObject Inr x True obtain r where
        r: "sweep E e cl option sh op (window_devicePixelRatio E) (scrollWidth e)
              (scrollHeight e) ?st = Some r"
        and out: "out = fst r" "tr = fst (snd r)"
        by (auto simp: segmented_unfold split: option.splits sum.splits)
      from sweep_monitor [OF r] show ?thesis
        unfolding out by auto
    qed
  qed
qed (insert assms, auto simp: html2canvasSegmented_def prepare_def)



section \<open>A run with a fractional segment height\<close>

lemma run_999_0: "js_mul (Fin 2) (Fin 80) = Fin 160"
proof -
  have x: "(2) * (80) = (160 :: real)" by simp
  have "fl (160) = Fin (of_int (5629499534213120) * 2 powi (7 - 52))"
    by (rule fl_eqI) (simp_all add: round_even_def)
  also have "of_int (5629499534213120) * 2 powi (7 - 52) = (160 :: real)" by simp
  finally show ?thesis by (simp add: js_sub_def x)
qed

lemma run_999_1: "js_mul (Fin 80) (Fin 2) = Fin 160"
proof -
  have x: "(80) * (2) = (160 :: real)" by simp
  have "fl (160) = Fin (of_int (5629499534213120) * 2 powi (7 - 52))"
    by (rule fl_eqI) (simp_all add: round_even_def)
  also have "of_int (5629499534213120) * 2 powi (7 - 52) = (160 :: real)" by simp
  finally show ?thesis by (simp add: js_sub_def x)
qed

lemma run_999_2: "js_add (Fin 0) (Fin 0) = Fin 0"
  by (simp add: js_sub_def fl_0)

lemma run_999_3: "js_sub (Fin 999) (Fin 0) = Fin 999"
proof -
  have x: "(999) - (0) = (999 :: real)" by simp
  have "fl (999) = Fin (of_int (8787296929185792) * 2 powi (9 - 52))"
    by (rule fl_eqI) (simp_all add: round_even_def)
  also have "of_int (8787296929185792) * 2 powi (9 - 52) = (999 :: real)" by simp
  finally show ?thesis by (simp add: js_sub_def x)
qed

lemma run_999_4: "js_mul (Fin 2) (Fin (3514918771674317 / 35184372088832)) = Fin (3514918771674317 / 17592186044416)"
proof -
  have x: "(2) * (3514918771674317 / 35184372088832) = (3514918771674317 / 17592186044416 :: real)" by simp
  have "fl (3514918771674317 / 17592186044416) = Fin (of_int (7029837543348634) * 2 powi (7 - 52))"
    by (rule fl_eqI) (simp_all add: round_even_def)
  also have "of_int (7029837543348634) * 2 powi (7 - 52) = (3514918771674317 / 17592186044416 :: real)" by simp
  finally show ?thesis by (simp add: js_sub_def x)
qed

lemma run_999_5: "js_mul (Fin (3514918771674317 / 35184372088832)) (Fin 2) = Fin (3514918771674317 / 17592186044416)"
proof -
  have x: "(3514918771674317 / 35184372088832) * (2) = (3514918771674317 / 17592186044416 :: real)" by simp
  have "fl (3514918771674317 / 17592186044416) = Fin (of_int (7029837543348634) * 2 powi (7 - 52))"
    by (rule fl_eqI) (simp_all add: round_even_def)
  also have "of_int (7029837543348634) * 2 powi (7 - 52) = (3514918771674317 / 17592186044416 :: real)" by simp
  finally show ?thesis by (simp add: js_sub_def x)
qed

lemma run_999_6: "js_add (Fin 0) (Fin (3514918771674317 / 35184372088832)) = Fin (3514918771674317 / 35184372088832)"
proof -
  have x: "(0) + (3514918771674317 / 35184372088832) = (3514918771674317 / 35184372088832 :: real)" by simp
  have "fl (3514918771674317 / 35184372088832) = Fin (of_int (7029837543348634) * 2 powi (6 - 52))"
    by (rule fl_eqI) (simp_all add: round_even_def)
  also have "of_int (7029837543348634) * 2 powi (6 - 52) = (3514918771674317 / 35184372088832 :: real)" by simp
  finally show ?thesis by (simp add: js_sub_def x)
qed

lemma run_999_7: "js_sub (Fin 999) (Fin (3514918771674317 / 35184372088832)) = Fin (7908567236267213 / 8796093022208)"
proof -
  have x: "(999) - (3514918771674317 / 35184372088832) = (31634268945068851 / 35184372088832 :: real)" by simp
  have "fl (31634268945068851 / 35184372088832) = Fin (of_int (7908567236267213) * 2 powi (9 - 52))"
    by (rule fl_eqI) (simp_all add: round_even_def)
  also have "of_int (7908567236267213) * 2 powi (9 - 52) = (7908567236267213 / 8796093022208 :: real)" by simp
  finally show ?thesis by (simp add: js_sub_def x)
qed

lemma run_999_8: "js_add (Fin (3514918771674317 / 35184372088832)) (Fin 0) = Fin (3514918771674317 / 35184372088832)"
proof -
  have x: "(3514918771674317 / 35184372088832) + (0) = (3514918771674317 / 35184372088832 :: real)" by simp
  have "fl (3514918771674317 / 35184372088832) = Fin (of_int (7029837543348634) * 2 powi (6 - 52))"
    by (rule fl_eqI) (simp_all add: round_even_def)
  also have "of_int (7029837543348634) * 2 powi (6 - 52) = (3514918771674317 / 35184372088832 :: real)" by simp
  finally show ?thesis by (simp add: js_sub_def x)
qed

lemma run_999_9: "js_add (Fin (3514918771674317 / 35184372088832)) (Fin (3514918771674317 / 35184372088832)) = Fin (3514918771674317 / 17592186044416)"
proof -
  have x: "(3514918771674317 / 35184372088832) + (3514918771674317 / 35184372088832) = (3514918771674317 / 17592186044416 :: real)" by simp
  have "fl (3514918771674317 / 17592186044416) = Fin (of_int (7029837543348634) * 2 powi (7 - 52))"
    by (rule fl_eqI) (simp_all add: round_even_def)
  also have "of_int (7029837543348634) * 2 powi (7 - 52) = (3514918771674317 / 17592186044416 :: real)" by simp
  finally show ?thesis by (simp add: js_sub_def x)
qed

lemma run_999_10: "js_sub (Fin 999) (Fin (3514918771674317 / 17592186044416)) = Fin (3514918771674317 / 4398046511104)"
proof -
  have x: "(999) - (3514918771674317 / 17592186044416) = (14059675086697267 / 17592186044416 :: real)" by simp
  have "fl (14059675086697267 / 17592186044416) = Fin (of_int (7029837543348634) * 2 powi (9 - 52))"
    by (rule fl_eqI) (simp_all add: round_even_def)
  also have "of_int (7029837543348634) * 2 powi (9 - 52) = (3514918771674317 / 4398046511104 :: real)" by simp
  finally show ?thesis by (simp add: js_sub_def x)
qed

lemma run_999_11: "js_add (Fin (3514918771674317 / 17592186044416)) (Fin 0) = Fin (3514918771674317 / 17592186044416)"
proof -
  have x: "(3514918771674317 / 17592186044416) + (0) = (3514918771674317 / 17592186044416 :: real)" by simp
  have "fl (3514918771674317 / 17592186044416) = Fin (of_int (7029837543348634) * 2 powi (7 - 52))"
    by (rule fl_eqI) (simp_all add: round_even_def)
  also have "of_int (7029837543348634) * 2 powi (7 - 52) = (3514918771674317 / 17592186044416 :: real)" by simp
  finally show ?thesis by (simp add: js_sub_def x)
qed

lemma run_999_12: "js_add (Fin (3514918771674317 / 17592186044416)) (Fin (3514918771674317 / 35184372088832)) = Fin (1318094539377869 / 4398046511104)"
proof -
  have x: "(3514918771674317 / 17592186044416) + (3514918771674317 / 35184372088832) = (10544756315022951 / 35184372088832 :: real)" by simp
  have "fl (10544756315022951 / 35184372088832) = Fin (of_int (5272378157511476) * 2 powi (8 - 52))"
    by (rule fl_eqI) (simp_all add: round_even_def)
  also have "of_int (5272378157511476) * 2 powi (8 - 52) = (1318094539377869 / 4398046511104 :: real)" by simp
  finally show ?thesis by (simp add: js_sub_def x)
qed

lemma run_999_13: "js_sub (Fin 999) (Fin (1318094539377869 / 4398046511104)) = Fin (3075553925215027 / 4398046511104)"
proof -
  have x: "(999) - (1318094539377869 / 4398046511104) = (3075553925215027 / 4398046511104 :: real)" by simp
  have "fl (3075553925215027 / 4398046511104) = Fin (of_int (6151107850430054) * 2 powi (9 - 52))"
    by (rule fl_eqI) (simp_all add: round_even_def)
  also have "of_int (6151107850430054) * 2 powi (9 - 52) = (3075553925215027 / 4398046511104 :: real)" by simp
  finally show ?thesis by (simp add: js_sub_def x)
qed

lemma run_999_14: "js_add (Fin (1318094539377869 / 4398046511104)) (Fin 0) = Fin (1318094539377869 / 4398046511104)"
proof -
  have x: "(1318094539377869 / 4398046511104) + (0) = (1318094539377869 / 4398046511104 :: real)" by simp
  have "fl (1318094539377869 / 4398046511104) = Fin (of_int (5272378157511476) * 2 powi (8 - 52))"
    by (rule fl_eqI) (simp_all add: round_even_def)
  also have "of_int (5272378157511476) * 2 powi (8 - 52) = (1318094539377869 / 4398046511104 :: real)" by simp
  finally show ?thesis by (simp add: js_sub_def x)
qed

lemma run_999_15: "js_add (Fin (1318094539377869 / 4398046511104)) (Fin (3514918771674317 / 35184372088832)) = Fin (3514918771674317 / 8796093022208)"
proof -
  have x: "(1318094539377869 / 4398046511104) + (3514918771674317 / 35184372088832) = (14059675086697269 / 35184372088832 :: real)" by simp
  have "fl (14059675086697269 / 35184372088832) = Fin (of_int (7029837543348634) * 2 powi (8 - 52))"
    by (rule fl_eqI) (simp_all add: round_even_def)
  also have "of_int (7029837543348634) * 2 powi (8 - 52) = (3514918771674317 / 8796093022208 :: real)" by simp
  finally show ?thesis by (simp add: js_sub_def x)
qed

lemma run_999_16: "js_sub (Fin 999) (Fin (3514918771674317 / 8796093022208)) = Fin (5272378157511475 / 8796093022208)"
proof -
  have x: "(999) - (3514918771674317 / 8796093022208) = (5272378157511475 / 8796093022208 :: real)" by simp
  have "fl (5272378157511475 / 8796093022208) = Fin (of_int (5272378157511475) * 2 powi (9 - 52))"
    by (rule fl_eqI) (simp_all add: round_even_def)
  also have "of_int (5272378157511475) * 2 powi (9 - 52) = (5272378157511475 / 8796093022208 :: real)" by simp
  finally show ?thesis by (simp add: js_sub_def x)
qed

lemma run_999_17: "js_add (Fin (3514918771674317 / 8796093022208)) (Fin 0) = Fin (3514918771674317 / 8796093022208)"
proof -
  have x: "(3514918771674317 / 8796093022208) + (0) = (3514918771674317 / 8796093022208 :: real)" by simp
  have "fl (3514918771674317 / 8796093022208) = Fin (of_int (7029837543348634) * 2 powi (8 - 52))"
    by (rule fl_eqI) (simp_all add: round_even_def)
  also have "of_int (7029837543348634) * 2 powi (8 - 52) = (3514918771674317 / 8796093022208 :: real)" by simp
  finally show ?thesis by (simp add: js_sub_def x)
qed

lemma run_999_18: "js_add (Fin (3514918771674317 / 8796093022208)) (Fin (3514918771674317 / 35184372088832)) = Fin (999 / 2)"
proof -
  have x: "(3514918771674317 / 8796093022208) + (3514918771674317 / 35184372088832) = (17574593858371585 / 35184372088832 :: real)" by simp
  have "fl (17574593858371585 / 35184372088832) = Fin (of_int (8787296929185792) * 2 powi (8 - 52))"
    by (rule fl_eqI) (simp_all add: round_even_def)
  also have "of_int (8787296929185792) * 2 powi (8 - 52) = (999 / 2 :: real)" by simp
  finally show ?thesis by (simp add: js_sub_def x)
qed

lemma run_999_19: "js_sub (Fin 999) (Fin (999 / 2)) = Fin (999 / 2)"
proof -
  have x: "(999) - (999 / 2) = (999 / 2 :: real)" by simp
  have "fl (999 / 2) = Fin (of_int (8787296929185792) * 2 powi (8 - 52))"
    by (rule fl_eqI) (simp_all add: round_even_def)
  also have "of_int (8787296929185792) * 2 powi (8 - 52) = (999 / 2 :: real)" by simp
  finally show ?thesis by (simp add: js_sub_def x)
qed

lemma run_999_20: "js_add (Fin (999 / 2)) (Fin 0) = Fin (999 / 2)"
proof -
  have x: "(999 / 2) + (0) = (999 / 2 :: real)" by simp
  have "fl (999 / 2) = Fin (of_int (8787296929185792) * 2 powi (8 - 52))"
    by (rule fl_eqI) (simp_all add: round_even_def)
  also have "of_int (8787296929185792) * 2 powi (8 - 52) = (999 / 2 :: real)" by simp
  finally show ?thesis by (simp add: js_sub_def x)
qed

lemma run_999_21: "js_add (Fin (999 / 2)) (Fin (3514918771674317 / 35184372088832)) = Fin (5272378157511475 / 8796093022208)"
proof -
  have x: "(999 / 2) + (3514918771674317 / 35184372088832) = (21089512630045901 / 35184372088832 :: real)" by simp
  have "fl (21089512630045901 / 35184372088832) = Fin (of_int (5272378157511475) * 2 powi (9 - 52))"
    by (rule fl_eqI) (simp_all add: round_even_def)
  also have "of_int (5272378157511475) * 2 powi (9 - 52) = (5272378157511475 / 8796093022208 :: real)" by simp
  finally show ?thesis by (simp add: js_sub_def x)
qed

lemma run_999_22: "js_sub (Fin 999) (Fin (5272378157511475 / 8796093022208)) = Fin (3514918771674317 / 8796093022208)"
proof -
  have x: "(999) - (5272378157511475 / 8796093022208) = (3514918771674317 / 8796093022208 :: real)" by simp
  have "fl (3514918771674317 / 8796093022208) = Fin (of_int (7029837543348634) * 2 powi (8 - 52))"
    by (rule fl_eqI) (simp_all add: round_even_def)
  also have "of_int (7029837543348634) * 2 powi (8 - 52) = (3514918771674317 / 8796093022208 :: real)" by simp
  finally show ?thesis by (simp add: js_sub_def x)
qed

lemma run_999_23: "js_add (Fin (5272378157511475 / 8796093022208)) (Fin 0) = Fin (5272378157511475 / 8796093022208)"
proof -
  have x: "(5272378157511475 / 8796093022208) + (0) = (5272378157511475 / 8796093022208 :: real)" by simp
  have "fl (5272378157511475 / 8796093022208) = Fin (of_int (5272378157511475) * 2 powi (9 - 52))"
    by (rule fl_eqI) (simp_all add: round_even_def)
  also have "of_int (5272378157511475) * 2 powi (9 - 52) = (5272378157511475 / 8796093022208 :: real)" by simp
  finally show ?thesis by (simp add: js_sub_def x)
qed

lemma run_999_24: "js_add (Fin (5272378157511475 / 8796093022208)) (Fin (3514918771674317 / 35184372088832)) = Fin (3075553925215027 / 4398046511104)"
proof -
  have x: "(5272378157511475 / 8796093022208) + (3514918771674317 / 35184372088832) = (24604431401720217 / 35184372088832 :: real)" by simp
  have "fl (24604431401720217 / 35184372088832) = Fin (of_int (6151107850430054) * 2 powi (9 - 52))"
    by (rule fl_eqI) (simp_all add: round_even_def)
  also have "of_int (6151107850430054) * 2 powi (9 - 52) = (3075553925215027 / 4398046511104 :: real)" by simp
  finally show ?thesis by (simp add: js_sub_def x)
qed

lemma run_999_25: "js_sub (Fin 999) (Fin (3075553925215027 / 4398046511104)) = Fin (1318094539377869 / 4398046511104)"
proof -
  have x: "(999) - (3075553925215027 / 4398046511104) = (1318094539377869 / 4398046511104 :: real)" by simp
  have "fl (1318094539377869 / 4398046511104) = Fin (of_int (5272378157511476) * 2 powi (8 - 52))"
    by (rule fl_eqI) (simp_all add: round_even_def)
  also have "of_int (5272378157511476) * 2 powi (8 - 52) = (1318094539377869 / 4398046511104 :: real)" by simp
  finally show ?thesis by (simp add: js_sub_def x)
qed

lemma run_999_26: "js_add (Fin (3075553925215027 / 4398046511104)) (Fin 0) = Fin (3075553925215027 / 4398046511104)"
proof -
  have x: "(3075553925215027 / 4398046511104) + (0) = (3075553925215027 / 4398046511104 :: real)" by simp
  have "fl (3075553925215027 / 4398046511104) = Fin (of_int (6151107850430054) * 2 powi (9 - 52))"
    by (rule fl_eqI) (simp_all add: round_even_def)
  also have "of_int (6151107850430054) * 2 powi (9 - 52) = (3075553925215027 / 4398046511104 :: real)" by simp
  finally show ?thesis by (simp add: js_sub_def x)
qed

lemma run_999_27: "js_add (Fin (3075553925215027 / 4398046511104)) (Fin (3514918771674317 / 35184372088832)) = Fin (7029837543348633 / 8796093022208)"
proof -
  have x: "(3075553925215027 / 4398046511104) + (3514918771674317 / 35184372088832) = (28119350173394533 / 35184372088832 :: real)" by simp
  have "fl (28119350173394533 / 35184372088832) = Fin (of_int (7029837543348633) * 2 powi (9 - 52))"
    by (rule fl_eqI) (simp_all add: round_even_def)
  also have "of_int (7029837543348633) * 2 powi (9 - 52) = (7029837543348633 / 8796093022208 :: real)" by simp
  finally show ?thesis by (simp add: js_sub_def x)
qed

lemma run_999_28: "js_sub (Fin 999) (Fin (7029837543348633 / 8796093022208)) = Fin (1757459385837159 / 8796093022208)"
proof -
  have x: "(999) - (7029837543348633 / 8796093022208) = (1757459385837159 / 8796093022208 :: real)" by simp
  have "fl (1757459385837159 / 8796093022208) = Fin (of_int (7029837543348636) * 2 powi (7 - 52))"
    by (rule fl_eqI) (simp_all add: round_even_def)
  also have "of_int (7029837543348636) * 2 powi (7 - 52) = (1757459385837159 / 8796093022208 :: real)" by simp
  finally show ?thesis by (simp add: js_sub_def x)
qed

lemma run_999_29: "js_add (Fin (7029837543348633 / 8796093022208)) (Fin 0) = Fin (7029837543348633 / 8796093022208)"
proof -
  have x: "(7029837543348633 / 8796093022208) + (0) = (7029837543348633 / 8796093022208 :: real)" by simp
  have "fl (7029837543348633 / 8796093022208) = Fin (of_int (7029837543348633) * 2 powi (9 - 52))"
    by (rule fl_eqI) (simp_all add: round_even_def)
  also have "of_int (7029837543348633) * 2 powi (9 - 52) = (7029837543348633 / 8796093022208 :: real)" by simp
  finally show ?thesis by (simp add: js_sub_def x)
qed

lemma run_999_30: "js_add (Fin (7029837543348633 / 8796093022208)) (Fin (3514918771674317 / 35184372088832)) = Fin (1977141809066803 / 2199023255552)"
proof -
  have x: "(7029837543348633 / 8796093022208) + (3514918771674317 / 35184372088832) = (31634268945068849 / 35184372088832 :: real)" by simp
  have "fl (31634268945068849 / 35184372088832) = Fin (of_int (7908567236267212) * 2 powi (9 - 52))"
    by (rule fl_eqI) (simp_all add: round_even_def)
  also have "of_int (7908567236267212) * 2 powi (9 - 52) = (1977141809066803 / 2199023255552 :: real)" by simp
  finally show ?thesis by (simp add: js_sub_def x)
qed

lemma run_999_31: "js_sub (Fin 999) (Fin (1977141809066803 / 2199023255552)) = Fin (219682423229645 / 2199023255552)"
proof -
  have x: "(999) - (1977141809066803 / 2199023255552) = (219682423229645 / 2199023255552 :: real)" by simp
  have "fl (219682423229645 / 2199023255552) = Fin (of_int (7029837543348640) * 2 powi (6 - 52))"
    by (rule fl_eqI) (simp_all add: round_even_def)
  also have "of_int (7029837543348640) * 2 powi (6 - 52) = (219682423229645 / 2199023255552 :: real)" by simp
  finally show ?thesis by (simp add: js_sub_def x)
qed

lemma run_999_32: "js_add (Fin (1977141809066803 / 2199023255552)) (Fin 0) = Fin (1977141809066803 / 2199023255552)"
proof -
  have x: "(1977141809066803 / 2199023255552) + (0) = (1977141809066803 / 2199023255552 :: real)" by simp
  have "fl (1977141809066803 / 2199023255552) = Fin (of_int (7908567236267212) * 2 powi (9 - 52))"
    by (rule fl_eqI) (simp_all add: round_even_def)
  also have "of_int (7908567236267212) * 2 powi (9 - 52) = (1977141809066803 / 2199023255552 :: real)" by simp
  finally show ?thesis by (simp add: js_sub_def x)
qed

lemma run_999_33: "js_add (Fin (1977141809066803 / 2199023255552)) (Fin (3514918771674317 / 35184372088832)) = Fin (8787296929185791 / 8796093022208)"
proof -
  have x: "(1977141809066803 / 2199023255552) + (3514918771674317 / 35184372088832) = (35149187716743165 / 35184372088832 :: real)" by simp
  have "fl (35149187716743165 / 35184372088832) = Fin (of_int (8787296929185791) * 2 powi (9 - 52))"
    by (rule fl_eqI) (simp_all add: round_even_def)
  also have "of_int (8787296929185791) * 2 powi (9 - 52) = (8787296929185791 / 8796093022208 :: real)" by simp
  finally show ?thesis by (simp add: js_sub_def x)
qed

lemma run_999_34: "js_sub (Fin 999) (Fin (8787296929185791 / 8796093022208)) = Fin (1 / 8796093022208)"
proof -
  have x: "(999) - (8787296929185791 / 8796093022208) = (1 / 8796093022208 :: real)" by simp
  have "fl (1 / 8796093022208) = Fin (of_int (4503599627370496) * 2 powi (-43 - 52))"
    by (rule fl_eqI) (simp_all add: round_even_def)
  also have "of_int (4503599627370496) * 2 powi (-43 - 52) = (1 / 8796093022208 :: real)" by simp
  finally show ?thesis by (simp add: js_sub_def x)
qed

lemma run_999_35: "js_mul (Fin 2) (Fin (1 / 8796093022208)) = Fin (1 / 4398046511104)"
proof -
  have x: "(2) * (1 / 8796093022208) = (1 / 4398046511104 :: real)" by simp
  have "fl (1 / 4398046511104) = Fin (of_int (4503599627370496) * 2 powi (-42 - 52))"
    by (rule fl_eqI) (simp_all add: round_even_def)
  also have "of_int (4503599627370496) * 2 powi (-42 - 52) = (1 / 4398046511104 :: real)" by simp
  finally show ?thesis by (simp add: js_sub_def x)
qed

lemma run_999_36: "js_mul (Fin (1 / 8796093022208)) (Fin 2) = Fin (1 / 4398046511104)"
proof -
  have x: "(1 / 8796093022208) * (2) = (1 / 4398046511104 :: real)" by simp
  have "fl (1 / 4398046511104) = Fin (of_int (4503599627370496) * 2 powi (-42 - 52))"
    by (rule fl_eqI) (simp_all add: round_even_def)
  also have "of_int (4503599627370496) * 2 powi (-42 - 52) = (1 / 4398046511104 :: real)" by simp
  finally show ?thesis by (simp add: js_sub_def x)
qed

lemma run_999_37: "js_add (Fin (8787296929185791 / 8796093022208)) (Fin 0) = Fin (8787296929185791 / 8796093022208)"
proof -
  have x: "(8787296929185791 / 8796093022208) + (0) = (8787296929185791 / 8796093022208 :: real)" by simp
  have "fl (8787296929185791 / 8796093022208) = Fin (of_int (8787296929185791) * 2 powi (9 - 52))"
    by (rule fl_eqI) (simp_all add: round_even_def)
  also have "of_int (8787296929185791) * 2 powi (9 - 52) = (8787296929185791 / 8796093022208 :: real)" by simp
  finally show ?thesis by (simp add: js_sub_def x)
qed

lemma run_999_38: "js_add (Fin (8787296929185791 / 8796093022208)) (Fin (1 / 8796093022208)) = Fin 999"
proof -
  have x: "(8787296929185791 / 8796093022208) + (1 / 8796093022208) = (999 :: real)" by simp
  have "fl (999) = Fin (of_int (8787296929185792) * 2 powi (9 - 52))"
    by (rule fl_eqI) (simp_all add: round_even_def)
  also have "of_int (8787296929185792) * 2 powi (9 - 52) = (999 :: real)" by simp
  finally show ?thesis by (simp add: js_sub_def x)
qed

lemmas run_999 = run_999_0 run_999_1 run_999_2 run_999_3 run_999_4 run_999_5 run_999_6 run_999_7 run_999_8 run_999_9 run_999_10 run_999_11 run_999_12 run_999_13 run_999_14 run_999_15 run_999_16 run_999_17 run_999_18 run_999_19 run_999_20 run_999_21 run_999_22 run_999_23 run_999_24 run_999_25 run_999_26 run_999_27 run_999_28 run_999_29 run_999_30 run_999_31 run_999_32 run_999_33 run_999_34 run_999_35 run_999_36 run_999_37 run_999_38

section \<open>The windows cover the element\<close>




section \<open>Failure during the sweep\<close>

text \<open>
  C2. As stated the claim fails: the source has no \<^verbatim>\<open>try\<close>/\<^verbatim>\<open>finally\<close>, so a failure leaves
  the function before \<^verbatim>\<open>canvas.remove()\<close> and \<^verbatim>\<open>destroyContainer\<close>. What holds is this. In
  any pass of the loop (any segment), when \<^verbatim>\<open>render\<close> fails, when the callback throws, or
  when the promise it returned rejects, the sweep ends at that step with that failure:
  nothing is painted, called, cleared or released after it. And whenever
  \<^verbatim>\<open>html2canvasSegmented\<close> rejects after \<^verbatim>\<open>prepare\<close> has succeeded, the clean-up has not run:
  the container that \<^verbatim>\<open>prepare\<close> inserted is still attached to the document.
\<close>

theorem failure_stops_sweep:
  assumes "h = js_min (js_sub (long H) (curTop st)) sh"
    and "c2 = \<lparr>width = as_long (js_floor (js_mul scale (long w0))), height = as_long (js_floor (js_mul scale h)), pixels = None\<rparr>"
    and "opts = option\<lparr>opt_canvas := Some c2, opt_y := Some (curTop st), opt_height := Some h,
                   opt_width := Some (long (scrollWidth ele))\<rparr>"
    and "js_lt (curTop st) (long H)"
    and "getContext2d E c2"
  shows "(render E ele cl opts = Inl err \<longrightarrow>
            sweep E ele cl option sh op scale w0 H st
              = Some (Inl err, steps st @ [Render (curTop st) h], outside st))
       \<and> (render E ele cl opts = Inr c \<and> op c (user (outside st)) = Inl err \<longrightarrow>
            sweep E ele cl option sh op scale w0 H st
              = Some (Inl err, steps st @ [Render (curTop st) h, Op c], outside st))
       \<and> (render E ele cl opts = Inr c \<and> op c (user (outside st)) = Inr (u1, Thenable settle)
            \<and> settle u1 = Inl err \<longrightarrow>
            sweep E ele cl option sh op scale w0 H st
              = Some (Inl err, steps st @ [Render (curTop st) h, Op c, Await],
                      (outside st)\<lparr>user := u1\<rparr>))
       \<and> (prepare E (JsObject e) option w = Inr ((cl', container), w1)
            \<and> html2canvasSegmented E (JsObject e) option sh op w = Some (Inl err, tr, w') \<longrightarrow>
            attached w' = insert container (attached w))"
proof -
  note defs = assms(1,2,3)
  have ctx: "getContext2d E \<lparr>width = as_long (js_floor (js_mul scale (long w0))),
                            height = as_long (js_floor (js_mul scale (js_min (js_sub (long H) (curTop st)) sh))), pixels = None\<rparr>"
    using assms(5) unfolding defs .
  have a: "sweep E ele cl option sh op scale w0 H st
              = Some (Inl err, steps st @ [Render (curTop st) h], outside st)"
    if r: "render E ele cl opts = Inl err"
    unfolding defs
    apply (rule sweep_fail [OF assms(4)])
    apply (rule segment_render_fails)
     apply (rule ctx)
    apply (rule r [unfolded defs])
    done
  have b: "sweep E ele cl option sh op scale w0 H st
              = Some (Inl err, steps st @ [Render (curTop st) h, Op c], outside st)"
    if r: "render E ele cl opts = Inr c" and o: "op c (user (outside st)) = Inl err"
    unfolding defs
    apply (rule sweep_fail [OF assms(4)])
    apply (rule segment_op_fails)
      apply (rule ctx)
     apply (rule r [unfolded defs])
    apply (rule o)
    done
  have c: "sweep E ele cl option sh op scale w0 H st
              = Some (Inl err, steps st @ [Render (curTop st) h, Op c, Await],
                      (outside st)\<lparr>user := u1\<rparr>)"
    if r: "render E ele cl opts = Inr c" and o: "op c (user (outside st)) = Inr (u1, Thenable settle)"
      and s: "settle u1 = Inl err"
    unfolding defs
    apply (rule sweep_fail [OF assms(4)])
    apply (rule segment_promise_rejects)
       apply (rule ctx)
      apply (rule r [unfolded defs])
     apply (rule o)
    apply (rule s)
    done
  have d: "attached w' = insert container (attached w)"
    if "prepare E (JsObject e) option w = Inr ((cl', container), w1)"
      and "html2canvasSegmented E (JsObject e) option sh op w = Some (Inl err, tr, w')"
    using that by (rule segmented_failure)
  from a b c d show ?thesis by blast
qed

theorem failure_stops_sweep_witness:
  "sweep (env0\<lparr>CanvasRenderer_render := (\<lambda>cfg tree. Inl (Error ''paint failed''))\<rparr>)
      ele0 ele0 options0 (Fin 100) count_op (Fin 2) 80 250
      \<lparr>canvas = createCanvas env0, curTop = Fin 0, steps = [], outside = world0\<rparr>
     = Some (Inl (Error ''paint failed''), [Render (Fin 0) (Fin 100)], world0)
 \<and> sweep env0 ele0 ele0 options0 (Fin 100) failing_op (Fin 2) 80 250
      \<lparr>canvas = createCanvas env0, curTop = Fin 0, steps = [], outside = world0\<rparr>
     = Some (Inl (Error ''callback failed''),
             [Render (Fin 0) (Fin 100), Op \<lparr>width = 160, height = 200, pixels = Some 0\<rparr>], world0)
 \<and> sweep (env0\<lparr>toBlob := (\<lambda>c m. None)\<rparr>) ele0 ele0 options0 (Fin 100)
      (blob_callback (env0\<lparr>toBlob := (\<lambda>c m. None)\<rparr>) ''image/png'') (Fin 2) 80 250
      \<lparr>canvas = createCanvas env0, curTop = Fin 0, steps = [], outside = \<lparr>attached = {7}, user = []\<rparr>\<rparr>
     = Some (Inl (Error ''to blob failed!''),
             [Render (Fin 0) (Fin 100), Op \<lparr>width = 160, height = 200, pixels = Some 0\<rparr>, Await],
             \<lparr>attached = {7}, user = []\<rparr>)
 \<and> (\<exists>tr w'. html2canvasSegmented env0 (JsObject ele0) options0 (Fin 100) failing_op world0
               = Some (Inl (Error ''callback failed''), tr, w')
           \<and> attached w' = {7})"
proof -
  let ?st = "\<lparr>canvas = createCanvas env0, curTop = Fin 0, steps = [], outside = world0\<rparr>"
  let ?E1 = "env0\<lparr>CanvasRenderer_render := (\<lambda>cfg tree. Inl (Error ''paint failed''))\<rparr>"
  let ?E2 = "env0\<lparr>toBlob := (\<lambda>c m. None)\<rparr>"
  let ?c = "\<lparr>width = 160, height = 200, pixels = Some 0\<rparr>"
  let ?w7 = "\<lparr>attached = {7}, user = 0 :: nat\<rparr>"
  have a: "sweep ?E1 ele0 ele0 options0 (Fin 100) count_op (Fin 2) 80 250 ?st
     = Some (Inl (Error ''paint failed''), [Render (Fin 0) (Fin 100)], world0)"
    using failure_stops_sweep [OF refl refl refl, where st = ?st and H = 250 and E = ?E1
        and scale = "Fin 2" and ?w0.0 = 80 and sh = "Fin 100" and ele = ele0 and cl = ele0
        and option = options0 and err = "Error ''paint failed''" and op = count_op
        and c = ?c and ?u1.0 = 0 and settle = "\<lambda>n. Inr n" and e = ele0 and w = world0
        and cl' = ele0 and container = 7 and ?w1.0 = ?w7 and tr = "[]" and w' = ?w7]
    by (simp add: fixture_defs render_def parseBackgroundColor_def number_simps)
  have b: "sweep env0 ele0 ele0 options0 (Fin 100) failing_op (Fin 2) 80 250 ?st
     = Some (Inl (Error ''callback failed''), [Render (Fin 0) (Fin 100), Op ?c], world0)"
    using failure_stops_sweep [OF refl refl refl, where st = ?st and H = 250 and E = env0
        and scale = "Fin 2" and ?w0.0 = 80 and sh = "Fin 100" and ele = ele0 and cl = ele0
        and option = options0 and err = "Error ''callback failed''" and op = failing_op
        and c = ?c and ?u1.0 = 0 and settle = "\<lambda>n. Inr n" and e = ele0 and w = world0
        and cl' = ele0 and container = 7 and ?w1.0 = ?w7 and tr = "[]" and w' = ?w7]
    by (simp add: fixture_defs render_def parseBackgroundColor_def number_simps)
  have c: "sweep ?E2 ele0 ele0 options0 (Fin 100) (blob_callback ?E2 ''image/png'') (Fin 2) 80 250
      \<lparr>canvas = createCanvas env0, curTop = Fin 0, steps = [], outside = \<lparr>attached = {7}, user = []\<rparr>\<rparr>
     = Some (Inl (Error ''to blob failed!''), [Render (Fin 0) (Fin 100), Op ?c, Await],
             \<lparr>attached = {7}, user = []\<rparr>)"
    using failure_stops_sweep [OF refl refl refl,
        where st = "\<lparr>canvas = createCanvas env0, curTop = Fin 0, steps = [],
                      outside = \<lparr>attached = {7}, user = []\<rparr>\<rparr>"
        and H = 250 and E = ?E2
        and scale = "Fin 2" and ?w0.0 = 80 and sh = "Fin 100" and ele = ele0 and cl = ele0
        and option = options0 and err = "Error ''to blob failed!''"
        and op = "blob_callback ?E2 ''image/png''"
        and c = ?c and ?u1.0 = "[]" and settle = "\<lambda>rst1. Inl (Error ''to blob failed!'')"
        and e = ele0 and w = "\<lparr>attached = {}, user = []\<rparr>"
        and cl' = ele0 and container = 7 and ?w1.0 = "\<lparr>attached = {7}, user = []\<rparr>"
        and tr = "[]" and w' = "\<lparr>attached = {7}, user = []\<rparr>"]
    by (simp add: fixture_defs render_def parseBackgroundColor_def blob_callback_def number_simps)
  have run: "html2canvasSegmented env0 (JsObject ele0) options0 (Fin 100) failing_op world0
     = Some (Inl (Error ''callback failed''), [Render (Fin 0) (Fin 100), Op ?c], ?w7)"
    by (simp add: fixture_defs model_defs sweep.simps number_simps)
  have prep: "prepare env0 (JsObject ele0) options0 world0 = Inr ((ele0, 7), ?w7)"
    by (simp add: fixture_defs prepare_def)
  have d: "\<exists>tr w'. html2canvasSegmented env0 (JsObject ele0) options0 (Fin 100) failing_op world0
               = Some (Inl (Error ''callback failed''), tr, w')
           \<and> attached w' = {7}"
    using failure_stops_sweep [OF refl refl refl, where st = ?st and H = 250 and E = env0
        and scale = "Fin 2" and ?w0.0 = 80 and sh = "Fin 100" and ele = ele0 and cl = ele0
        and option = options0 and err = "Error ''callback failed''" and op = failing_op
        and c = ?c and ?u1.0 = 0 and settle = "\<lambda>n. Inr n" and e = ele0 and w = world0
        and cl' = ele0 and container = 7 and ?w1.0 = ?w7 and tr = "[Render (Fin 0) (Fin 100), Op ?c]"
        and w' = ?w7]
      run prep
    by (simp add: world0_def)
  from a b c d show ?thesis by blast
qed

text \<open>
  The counterexample to C2 as stated: on the concrete page, with a callback that throws
  on its first call, \<^verbatim>\<open>html2canvasSegmented\<close> rejects and container 7, which \<^verbatim>\<open>prepare\<close>
  inserted, is still attached; the raster was neither cleared nor released.
\<close>

theorem failure_leaves_container:
  "prepare env0 (JsObject ele0) options0 world0 = Inr ((ele0, 7), \<lparr>attached = {7}, user = 0\<rparr>)
 \<and> html2canvasSegmented env0 (JsObject ele0) options0 (Fin 100) failing_op world0
     = Some (Inl (Error ''callback failed''),
             [Render (Fin 0) (Fin 100), Op \<lparr>width = 160, height = 200, pixels = Some 0\<rparr>],
             \<lparr>attached = {7}, user = 0\<rparr>)"
  by (simp add: fixture_defs model_defs sweep.simps number_simps)

section \<open>Background colour\<close>

text \<open>
  C3. \<^verbatim>\<open>parseBackgroundColor\<close> resolves the background by a fixed precedence. For an element
  that is not the document's root element the override alone decides: a string gives its
  parsed colour, \<^verbatim>\<open>null\<close> gives the transparent sentinel, unset gives \<open>0xffffffff\<close>, whatever
  the colours of document and body. For the root element the document element's own colour
  is used unless it is transparent, then the body's colour unless that is transparent too,
  and only then the override. So a transparent document with a red body and no override
  resolves to red, and a blue document resolves to blue under any override.
\<close>

theorem parseBackgroundColor_precedence:
  assumes "ownerDocument element = Some doc"
    and "documentColor = (case documentElement doc of
                            Some html \<Rightarrow> parseColor E (computedBackgroundColor html)
                          | None \<Rightarrow> TRANSPARENT E)"
    and "bodyColor = (case body doc of
                        Some b \<Rightarrow> parseColor E (computedBackgroundColor b)
                      | None \<Rightarrow> TRANSPARENT E)"
    and "fallback = (case override of
                       Val s \<Rightarrow> parseColor E s
                     | Null \<Rightarrow> TRANSPARENT E
                     | Unset \<Rightarrow> 0xffffffff)"
    and "is_root = (\<exists>html. documentElement doc = Some html \<and> nid html = eid element)"
  shows "(\<not> is_root \<longrightarrow> parseBackgroundColor E element override = Inr fallback)
       \<and> (is_root \<and> \<not> isTransparent E documentColor
            \<longrightarrow> parseBackgroundColor E element override = Inr documentColor)
       \<and> (is_root \<and> isTransparent E documentColor \<and> \<not> isTransparent E bodyColor
            \<longrightarrow> parseBackgroundColor E element override = Inr bodyColor)
       \<and> (is_root \<and> isTransparent E documentColor \<and> isTransparent E bodyColor
            \<longrightarrow> parseBackgroundColor E element override = Inr fallback)"
  using assms
  by (auto simp: parseBackgroundColor_def Let_def split: option.splits)

theorem parseBackgroundColor_precedence_witness:
  "parseBackgroundColor env0 ele0 Null = Inr 0
 \<and> parseBackgroundColor env0 ele0 Unset = Inr 0xffffffff
 \<and> parseBackgroundColor env0 ele0 (Val ''rgb(0, 0, 255)'') = Inr 0x0000ffff
 \<and> parseBackgroundColor env0 html0 Unset = Inr 0xff0000ff
 \<and> parseBackgroundColor env0
       (html0\<lparr>ownerDocument := Some (doc0\<lparr>documentElement :=
            Some \<lparr>nid = 0, computedBackgroundColor = ''rgb(0, 0, 255)''\<rparr>\<rparr>)\<rparr>)
       (Val ''rgb(255, 0, 0)'') = Inr 0x0000ffff
 \<and> parseBackgroundColor env0 (html0\<lparr>ownerDocument := Some (doc0\<lparr>body := None\<rparr>)\<rparr>) Null = Inr 0"
  using
    parseBackgroundColor_precedence [OF _ refl refl refl refl,
      where element = ele0 and doc = doc0 and E = env0 and override = Null]
    parseBackgroundColor_precedence [OF _ refl refl refl refl,
      where element = ele0 and doc = doc0 and E = env0 and override = Unset]
    parseBackgroundColor_precedence [OF _ refl refl refl refl,
      where element = ele0 and doc = doc0 and E = env0 and override = "Val ''rgb(0, 0, 255)''"]
    parseBackgroundColor_precedence [OF _ refl refl refl refl,
      where element = html0 and doc = doc0 and E = env0 and override = Unset]
    parseBackgroundColor_precedence [OF _ refl refl refl refl,
      where element = "html0\<lparr>ownerDocument := Some (doc0\<lparr>documentElement :=
            Some \<lparr>nid = 0, computedBackgroundColor = ''rgb(0, 0, 255)''\<rparr>\<rparr>)\<rparr>"
        and doc = "doc0\<lparr>documentElement :=
            Some \<lparr>nid = 0, computedBackgroundColor = ''rgb(0, 0, 255)''\<rparr>\<rparr>"
        and E = env0 and override = "Val ''rgb(255, 0, 0)''"]
    parseBackgroundColor_precedence [OF _ refl refl refl refl,
      where element = "html0\<lparr>ownerDocument := Some (doc0\<lparr>body := None\<rparr>)\<rparr>"
        and doc = "doc0\<lparr>body := None\<rparr>" and E = env0 and override = Null]
  by (simp add: fixture_defs)

text \<open>
  C4. On the software-painter path of \<^verbatim>\<open>render\<close> (\<^verbatim>\<open>foreignObjectRendering\<close> unset or
  \<^verbatim>\<open>false\<close>), the painter is called with the resolved background colour in its options, and
  with the parsed root whose own background is replaced by the transparent sentinel
  exactly when it equals that resolved colour; otherwise the root is passed on unchanged.
\<close>

theorem render_root_background:
  assumes "ownerDocument element = Some doc"
    and "defaultView doc = Some view"
    and "opt_foreignObjectRendering opts = None \<or> opt_foreignObjectRendering opts = Some False"
    and "parseBackgroundColor E clonedElement (opt_backgroundColor opts) = Inr backgroundColor"
  shows "\<exists>renderOptions.
           rc_backgroundColor renderOptions = backgroundColor
         \<and> render E element clonedElement opts =
             CanvasRenderer_render E renderOptions
               (if backgroundColor = styles_backgroundColor (parseTree E clonedElement)
                then (parseTree E clonedElement)\<lparr>styles_backgroundColor := TRANSPARENT E\<rparr>
                else parseTree E clonedElement)"
proof -
  have fo: "(case opt_foreignObjectRendering opts of Some b \<Rightarrow> b | None \<Rightarrow> False) = False"
    using assms(3) by auto
  show ?thesis
    unfolding render_def Let_def
    apply (simp only: assms(1,2,4) fo option.case sum.case if_False)
    apply (rule exI, rule conjI)
     prefer 2
     apply (rule refl)
    apply simp
    done
qed

theorem render_root_background_witness:
  "render (env0\<lparr>CanvasRenderer_render :=
             (\<lambda>cfg tree. Inr \<lparr>width = 0, height = 0,
                                pixels = Some (nat (styles_backgroundColor tree))\<rparr>)\<rparr>)
      ele0 ele0 (options0\<lparr>opt_backgroundColor := Val ''rgb(255, 0, 0)''\<rparr>)
     = Inr \<lparr>width = 0, height = 0, pixels = Some 0\<rparr>
 \<and> render (env0\<lparr>CanvasRenderer_render :=
             (\<lambda>cfg tree. Inr \<lparr>width = 0, height = 0,
                                pixels = Some (nat (styles_backgroundColor tree))\<rparr>)\<rparr>)
      ele0 ele0 options0
     = Inr \<lparr>width = 0, height = 0, pixels = Some 4278190335\<rparr>"
  using
    render_root_background [where element = ele0 and doc = doc0
      and view = "\<lparr>devicePixelRatio = Some (Fin 2)\<rparr>"
      and opts = "options0\<lparr>opt_backgroundColor := Val ''rgb(255, 0, 0)''\<rparr>"
      and E = "env0\<lparr>CanvasRenderer_render :=
             (\<lambda>cfg tree. Inr \<lparr>width = 0, height = 0,
                                pixels = Some (nat (styles_backgroundColor tree))\<rparr>)\<rparr>"
      and clonedElement = ele0 and backgroundColor = "0xff0000ff"]
    render_root_background [where element = ele0 and doc = doc0
      and view = "\<lparr>devicePixelRatio = Some (Fin 2)\<rparr>"
      and opts = options0
      and E = "env0\<lparr>CanvasRenderer_render :=
             (\<lambda>cfg tree. Inr \<lparr>width = 0, height = 0,
                                pixels = Some (nat (styles_backgroundColor tree))\<rparr>)\<rparr>"
      and clonedElement = ele0 and backgroundColor = "0xffffffff"]
  by (simp add: fixture_defs parseBackgroundColor_def)

section \<open>Preconditions\<close>



section \<open>Removal of the container\<close>

text \<open>
  C6. The claim is that every capture operation destroys the isolation container after
  its last paint unless the caller passes \<^verbatim>\<open>removeContainer = false\<close>, which leaves it
  alive. \<^verbatim>\<open>renderElement\<close> does that. \<^verbatim>\<open>html2canvasSegmented\<close> takes the same options but
  never reads \<^verbatim>\<open>removeContainer\<close>: on the concrete page, called with
  \<^verbatim>\<open>removeContainer = false\<close>, it detaches container 7 all the same, where \<^verbatim>\<open>html2canvas\<close>
  with the same options leaves it attached.
\<close>

theorem segmented_ignores_removeContainer:
  "html2canvasSegmented env0 (JsObject ele0) (options0\<lparr>opt_removeContainer := Some False\<rparr>)
      (Fin 100) count_op world0
     = Some (Inr (),
             [Render (Fin 0) (Fin 100), Op \<lparr>width = 160, height = 200, pixels = Some 0\<rparr>, Clear, Release,
              Render (Fin 100) (Fin 100), Op \<lparr>width = 160, height = 200, pixels = Some 100\<rparr>, Clear, Release,
              Render (Fin 200) (Fin 50), Op \<lparr>width = 160, height = 100, pixels = Some 200\<rparr>, Clear, Release],
             \<lparr>attached = {}, user = 3\<rparr>)
 \<and> html2canvas env0 (JsObject ele0) (options0\<lparr>opt_removeContainer := Some False\<rparr>) world0
     = (Inr \<lparr>width = 160, height = 500, pixels = Some 0\<rparr>, \<lparr>attached = {7}, user = 0\<rparr>)"
  by (simp add: number_simps fixture_defs model_defs sweep.simps html2canvas_def renderElement_def)

section \<open>The callback is awaited\<close>

text \<open>
  C7. In every pass of the loop that goes on to the next window, if the callback returned
  a thenable then that thenable has resolved before the raster is cleared and released and
  before \<^verbatim>\<open>curTop\<close> advances: the next pass starts from the caller's state as the resolved
  promise left it. And the steps of every call of \<^verbatim>\<open>html2canvasSegmented\<close> that returns
  are accepted by the monitor: a window is painted only at the start or after the previous
  raster was released, and a raster is cleared only after its callback returned and, if
  that was awaited, resolved. Windows never interleave.
\<close>

theorem callback_awaited:
  assumes "h = js_min (js_sub (long H) (curTop st)) sh"
    and "c2 = \<lparr>width = as_long (js_floor (js_mul scale (long w0))), height = as_long (js_floor (js_mul scale h)), pixels = None\<rparr>"
    and "opts = option\<lparr>opt_canvas := Some c2, opt_y := Some (curTop st), opt_height := Some h,
                   opt_width := Some (long (scrollWidth ele))\<rparr>"
  shows "(segment E ele cl option sh op scale w0 H st = Inr st'
            \<and> render E ele cl opts = Inr c
            \<and> op c (user (outside st)) = Inr (u1, Thenable settle) \<longrightarrow>
            (\<exists>u2. settle u1 = Inr u2
               \<and> outside st' = (outside st)\<lparr>user := u2\<rparr>
               \<and> curTop st' = js_add (curTop st) h
               \<and> steps st' = steps st @ [Render (curTop st) h, Op c, Await, Resolved, Clear, Release]))
       \<and> (html2canvasSegmented E x option sh op w = Some (out, tr, w') \<longrightarrow>
            (\<exists>p. monitor Idle tr = Some p
               \<and> (p = Idle \<or> p = Painting \<or> p = Called \<or> p = Awaiting)
               \<and> (out = Inr () \<longrightarrow> p = Idle)))"
proof -
  note defs = assms
  have a: "\<exists>u2. settle u1 = Inr u2
               \<and> outside st' = (outside st)\<lparr>user := u2\<rparr>
               \<and> curTop st' = js_add (curTop st) h
               \<and> steps st' = steps st @ [Render (curTop st) h, Op c, Await, Resolved, Clear, Release]"
    if s: "segment E ele cl option sh op scale w0 H st = Inr st'"
      and r: "render E ele cl opts = Inr c"
      and o: "op c (user (outside st)) = Inr (u1, Thenable settle)"
    using segment_promise_awaited [OF s r [unfolded defs] o] segment_Inr(1) [OF s]
    unfolding defs by auto
  have b: "\<exists>p. monitor Idle tr = Some p
               \<and> (p = Idle \<or> p = Painting \<or> p = Called \<or> p = Awaiting)
               \<and> (out = Inr () \<longrightarrow> p = Idle)"
    if "html2canvasSegmented E x option sh op w = Some (out, tr, w')"
    using that by (rule segmented_monitor)
  from a b show ?thesis by blast
qed

theorem callback_awaited_witness:
  "segment env0 ele0 ele0 options0 (Fin 100) async_op (Fin 2) 80 250
      \<lparr>canvas = createCanvas env0, curTop = Fin 0, steps = [], outside = world0\<rparr>
     = Inr \<lparr>canvas = \<lparr>width = 1, height = 1, pixels = None\<rparr>, curTop = Fin 100,
            steps = [Render (Fin 0) (Fin 100), Op \<lparr>width = 160, height = 200, pixels = Some 0\<rparr>,
                     Await, Resolved, Clear, Release],
            outside = \<lparr>attached = {}, user = 1\<rparr>\<rparr>
 \<and> (\<exists>tr w'. html2canvasSegmented env0 (JsObject ele0) options0 (Fin 100) async_op world0
               = Some (Inr (), tr, w')
            \<and> monitor Idle tr = Some Idle
            \<and> tr = [Render (Fin 0) (Fin 100), Op \<lparr>width = 160, height = 200, pixels = Some 0\<rparr>,
                     Await, Resolved, Clear, Release,
                     Render (Fin 100) (Fin 100), Op \<lparr>width = 160, height = 200, pixels = Some 100\<rparr>,
                     Await, Resolved, Clear, Release,
                     Render (Fin 200) (Fin 50), Op \<lparr>width = 160, height = 100, pixels = Some 200\<rparr>,
                     Await, Resolved, Clear, Release])"
proof -
  let ?st = "\<lparr>canvas = createCanvas env0, curTop = Fin 0, steps = [], outside = world0\<rparr>"
  let ?c = "\<lparr>width = 160, height = 200, pixels = Some 0\<rparr>"
  let ?tr = "[Render (Fin 0) (Fin 100), Op \<lparr>width = 160, height = 200, pixels = Some 0\<rparr>,
                     Await, Resolved, Clear, Release,
                     Render (Fin 100) (Fin 100), Op \<lparr>width = 160, height = 200, pixels = Some 100\<rparr>,
                     Await, Resolved, Clear, Release,
                     Render (Fin 200) (Fin 50), Op \<lparr>width = 160, height = 100, pixels = Some 200\<rparr>,
                     Await, Resolved, Clear, Release]"
  let ?st' = "\<lparr>canvas = \<lparr>width = 1, height = 1, pixels = None\<rparr>, curTop = Fin 100,
            steps = [Render (Fin 0) (Fin 100), Op ?c, Await, Resolved, Clear, Release],
            outside = \<lparr>attached = {}, user = 1 :: nat\<rparr>\<rparr>"
  have seg: "segment env0 ele0 ele0 options0 (Fin 100) async_op (Fin 2) 80 250 ?st = Inr ?st'"
    by (simp add: fixture_defs model_defs number_simps)
  have run: "html2canvasSegmented env0 (JsObject ele0) options0 (Fin 100) async_op world0
               = Some (Inr (), ?tr, \<lparr>attached = {}, user = 3\<rparr>)"
    by (simp add: number_simps fixture_defs model_defs sweep.simps)
  have "monitor Idle ?tr = Some Idle"
    using callback_awaited [OF refl refl refl, where st = ?st and H = 250 and sh = "Fin 100"
        and scale = "Fin 2" and ?w0.0 = 80 and option = options0 and ele = ele0 and E = env0
        and cl = ele0 and op = async_op and st' = ?st' and c = ?c and ?u1.0 = 0
        and settle = "\<lambda>m. Inr (Suc m)" and x = "JsObject ele0" and w = world0
        and out = "Inr ()" and tr = ?tr and w' = "\<lparr>attached = {}, user = 3\<rparr>"]
      seg run
    by simp
  with seg run show ?thesis by simp
qed

section \<open>The list of blobs\<close>

section \<open>The size assigned before the loop\<close>

text \<open>
  C9. The two assignments of \<^verbatim>\<open>canvas.width\<close> and \<^verbatim>\<open>canvas.height\<close> before the loop are
  redundant: without them \<^verbatim>\<open>html2canvasSegmented\<close> has the same outcome, hands the same
  rasters to the callback in the same steps, and leaves the same state outside, on every
  input. Each pass assigns both sizes before anything reads the canvas, and with no
  pass the canvas is dropped unread.
\<close>

theorem presize_redundant:
  "html2canvasSegmented_without_presize E ele option sh op w = html2canvasSegmented E ele option sh op w"
proof -
  have eq: "sweep E e cl option sh op scale w0 H
              \<lparr>canvas = set_height (set_width c a) b, curTop = Fin 0, steps = [], outside = w1\<rparr>
          = sweep E e cl option sh op scale w0 H
              \<lparr>canvas = c, curTop = Fin 0, steps = [], outside = w1\<rparr>"
    for e cl scale w0 H a b and c :: canvas and w1 :: "'a world"
    using sweep_canvas [where st = "\<lparr>canvas = c, curTop = Fin 0, steps = [], outside = w1\<rparr>"
        and c = "set_height (set_width c a) b"]
    by simp
  show ?thesis
    unfolding html2canvasSegmented_without_presize_def html2canvasSegmented_def Let_def
    by (simp add: eq cong: js.case_cong sum.case_cong prod.case_cong if_cong)
qed

section \<open>Termination of the sweep\<close>

end
